theory Spec2Isabelle
  imports Complex_Main
begin

text \<open>
  The crypto insights agent: the cache-aside price and news lookups of \<open>agent_core.py\<close>,
  the event producer of \<open>main.py\<close>, the SSE adapter of \<open>sentient_adapter.py\<close>, and the
  context rewrite and the token pagination of \<open>telegram_bot.py\<close>. The database and the
  three providers are outside the program: their answers are inputs of the model, and the
  calls made to them are recorded.
\<close>

section \<open>Text\<close>

text \<open>
  A Python \<open>str\<close> is modelled as a \<open>string\<close>, a list of 8-bit characters: the
  text in its UTF-8 form. Case folding and white space are those of the ASCII range, which
  is where every keyword, trigger phrase and token name of the program lives: the model
  is of questions and names in ASCII, and leaves white space and letters beyond it as
  they are.
\<close>

definition ord :: "char \<Rightarrow> nat" where
  "ord c = of_char c"

definition is_upper :: "char \<Rightarrow> bool" where
  "is_upper c = (65 \<le> ord c \<and> ord c \<le> 90)"

definition is_lower :: "char \<Rightarrow> bool" where
  "is_lower c = (97 \<le> ord c \<and> ord c \<le> 122)"

definition lower_char :: "char \<Rightarrow> char" where
  "lower_char c = (if is_upper c then char_of (ord c + 32) else c)"

definition upper_char :: "char \<Rightarrow> char" where
  "upper_char c = (if is_lower c then char_of (ord c - 32) else c)"

text \<open>\<open>str.lower()\<close> and \<open>str.upper()\<close>.\<close>

definition py_lower :: "string \<Rightarrow> string" where
  "py_lower s = map lower_char s"

definition py_upper :: "string \<Rightarrow> string" where
  "py_upper s = map upper_char s"

text \<open>The characters \<open>str.strip()\<close> removes: tab, line feed, vertical tab, form feed,
  carriage return, the four separators 28 to 31, and the space.\<close>

definition is_space :: "char \<Rightarrow> bool" where
  "is_space c = ((9 \<le> ord c \<and> ord c \<le> 13) \<or> (28 \<le> ord c \<and> ord c \<le> 32))"

definition py_strip :: "string \<Rightarrow> string" where
  "py_strip s = rev (dropWhile is_space (rev (dropWhile is_space s)))"

text \<open>\<open>sub in s\<close> on strings: \<open>sub\<close> occurs in \<open>s\<close> as a contiguous run.\<close>

definition starts_with :: "string \<Rightarrow> string \<Rightarrow> bool" where
  "starts_with s p = (take (length p) s = p)"

fun py_in :: "string \<Rightarrow> string \<Rightarrow> bool" where
  "py_in sub [] = (sub = [])"
| "py_in sub (c # cs) = (starts_with (c # cs) sub \<or> py_in sub cs)"

text \<open>A slice \<open>xs[a:b]\<close>: an omitted bound is \<open>None\<close>, a negative index counts
  from the end, and both ends are clamped to the list.\<close>

definition slice_index :: "nat \<Rightarrow> int \<Rightarrow> nat" where
  "slice_index n i = (if i < 0 then nat (max 0 (int n + i)) else min n (nat i))"

definition py_slice :: "'a list \<Rightarrow> int option \<Rightarrow> int option \<Rightarrow> 'a list" where
  "py_slice xs a b =
     (let s = (case a of None \<Rightarrow> 0 | Some i \<Rightarrow> slice_index (length xs) i);
          e = (case b of None \<Rightarrow> length xs | Some j \<Rightarrow> slice_index (length xs) j)
      in take (e - s) (drop s xs))"

text \<open>\<open>sep.join(xs)\<close>, \<open>s.split(sep)\<close> for a separator of one character, \<open>str(n)\<close> and
  \<open>int(s)\<close> on decimal digits.\<close>

fun py_join :: "string \<Rightarrow> string list \<Rightarrow> string" where
  "py_join sep [] = []"
| "py_join sep [x] = x"
| "py_join sep (x # y # ys) = x @ sep @ py_join sep (y # ys)"

fun py_split :: "char \<Rightarrow> string \<Rightarrow> string list" where
  "py_split sep [] = [[]]"
| "py_split sep (c # cs) =
     (if c = sep then [] # py_split sep cs
      else (case py_split sep cs of
              [] \<Rightarrow> [[c]]
            | p # ps \<Rightarrow> (c # p) # ps))"

fun str_nat :: "nat \<Rightarrow> string" where
  "str_nat n = (if n < 10 then [char_of (48 + n)] else str_nat (n div 10) @ [char_of (48 + n mod 10)])"

definition str_int :: "int \<Rightarrow> string" where
  "str_int i = (if i < 0 then CHR ''-'' # str_nat (nat (- i)) else str_nat (nat i))"

definition is_digit :: "char \<Rightarrow> bool" where
  "is_digit c = (48 \<le> ord c \<and> ord c \<le> 57)"

text \<open>Digits, in groups set apart by single underscores.\<close>

definition digits_value :: "string \<Rightarrow> int option" where
  "digits_value ds =
     (if list_all (\<lambda>g. g \<noteq> [] \<and> list_all is_digit g) (py_split CHR ''_'' ds)
      then Some (foldl (\<lambda>a c. 10 * a + (int (ord c) - 48)) 0
                   (concat (py_split CHR ''_'' ds)))
      else None)"

definition py_int :: "string \<Rightarrow> int option" where
  "py_int s =
     (case py_strip s of
        [] \<Rightarrow> None
      | c # cs \<Rightarrow>
          if c = CHR ''-'' then map_option uminus (digits_value cs)
          else if c = CHR ''+'' then digits_value cs
          else digits_value (c # cs))"

section \<open>JSON values\<close>

text \<open>
  A Python number is an \<open>int\<close> or a \<open>float\<close>; a float is the rational that its
  sixty-four bits denote. \<open>json.dumps\<close> writes the two apart (\<open>67000\<close> and
  \<open>67000.0\<close>), so a payload keeps which of the two a number is.
\<close>

datatype number = PyInt int | PyFloat rat

definition number_value :: "number \<Rightarrow> rat" where
  "number_value n = (case n of PyInt i \<Rightarrow> of_int i | PyFloat r \<Rightarrow> r)"

text \<open>
  What \<open>json.loads\<close> returns and \<open>json.dumps\<close> accepts. A \<open>dict\<close> is an
  association list in insertion order.
\<close>

datatype json =
    JNull
  | JBool bool
  | JNum number
  | JStr string
  | JArr "json list"
  | JObj "(string \<times> json) list"

text \<open>The \<open>json\<close> module is a library: its two functions are parameters of the model,
  with \<open>None\<close> for \<open>JSONDecodeError\<close>. With them come two built-ins on decoded values:
  \<open>str_of\<close> is \<open>str()\<close> of a value that is not a string, and \<open>type_name\<close> is
  \<open>type(v).__name__\<close>.\<close>

record json_module =
  dumps :: "json \<Rightarrow> string"
  loads :: "string \<Rightarrow> json option"
  str_of :: "json \<Rightarrow> string"
  type_name :: "json \<Rightarrow> string"

text \<open>\<open>d.get(k)\<close> on a \<open>dict\<close>, with \<open>None\<close> as \<open>JNull\<close>.\<close>

definition dict_get :: "(string \<times> json) list \<Rightarrow> string \<Rightarrow> json" where
  "dict_get d k = (case map_of d k of None \<Rightarrow> JNull | Some v \<Rightarrow> v)"

text \<open>Truth value testing: \<open>None\<close>, \<open>False\<close>, zero and the empty string, list and
  dict are false.\<close>

fun truthy :: "json \<Rightarrow> bool" where
  "truthy JNull = False"
| "truthy (JBool b) = b"
| "truthy (JNum n) = (number_value n \<noteq> 0)"
| "truthy (JStr s) = (s \<noteq> [])"
| "truthy (JArr xs) = (xs \<noteq> [])"
| "truthy (JObj kvs) = (kvs \<noteq> [])"

definition opt_str :: "string option \<Rightarrow> json" where
  "opt_str x = (case x of None \<Rightarrow> JNull | Some s \<Rightarrow> JStr s)"

definition opt_num :: "number option \<Rightarrow> json" where
  "opt_num x = (case x of None \<Rightarrow> JNull | Some n \<Rightarrow> JNum n)"

text \<open>A call either raises an exception, kept by its text, or returns.\<close>

datatype 'a attempt = Raises string | Returns 'a

section \<open>The cache tables\<close>

text \<open>
  Instants are counted in microseconds, the resolution of \<open>datetime\<close> and of
  \<open>TIMESTAMPTZ\<close>.
\<close>

type_synonym instant = int

definition minutes :: "int \<Rightarrow> int" where
  "minutes n = n * 60 * 1000000"

text \<open>The two tables of \<open>creates_tables.py\<close>. \<open>price\<close> is \<open>NOT NULL\<close>;
  \<open>market_cap\<close> and \<open>volume_24h\<close> may be \<open>NULL\<close>. A \<open>NUMERIC\<close> column holds a
  decimal, read back as a \<open>Decimal\<close>: a \<open>rat\<close>.\<close>

record price_row =
  token_id :: string
  price :: rat
  market_cap :: "rat option"
  volume_24h :: "rat option"
  fetched_at :: instant

text \<open>An article as \<open>get_news\<close> keeps it: its title and its url, each a string or
  \<open>null\<close>.\<close>

record article =
  title :: "string option"
  url :: "string option"

record news_row =
  query :: string
  articles :: "article list"
  news_fetched_at :: instant

text \<open>\<open>ORDER BY fetched_at DESC LIMIT 1\<close>: a row of the greatest \<open>fetched_at\<close>. Among
  rows of the same instant the database may return any; the model returns the one stored
  last.\<close>

fun latest :: "('r \<Rightarrow> instant) \<Rightarrow> 'r list \<Rightarrow> 'r option" where
  "latest ts [] = None"
| "latest ts (r # rs) =
     (case latest ts rs of
        None \<Rightarrow> Some r
      | Some m \<Rightarrow> if ts r \<le> ts m then Some m else Some r)"

text \<open>\<open>SELECT ... WHERE key = k AND fetched_at >= since ORDER BY fetched_at DESC LIMIT 1\<close>
  followed by \<open>fetchone()\<close>.\<close>

definition select_latest ::
  "('r \<Rightarrow> string) \<Rightarrow> ('r \<Rightarrow> instant) \<Rightarrow> 'r list \<Rightarrow> string \<Rightarrow> instant \<Rightarrow> 'r option" where
  "select_latest key ts rows k since =
     latest ts (filter (\<lambda>r. key r = k \<and> since \<le> ts r) rows)"

text \<open>The lookup of \<open>get_smart_token_price\<close> (five minutes) and of \<open>get_smart_news\<close>
  (sixty minutes), at the clock reading \<open>now\<close>.\<close>

definition price_lookup :: "price_row list \<Rightarrow> string \<Rightarrow> instant \<Rightarrow> price_row option" where
  "price_lookup rows k now = select_latest token_id fetched_at rows k (now - minutes 5)"

definition news_lookup :: "news_row list \<Rightarrow> string \<Rightarrow> instant \<Rightarrow> news_row option" where
  "news_lookup rows k now = select_latest query news_fetched_at rows k (now - minutes 60)"

text \<open>A \<open>NUMERIC(p, 10)\<close> column keeps ten digits after the decimal point, rounding half
  away from zero, and refuses a number that needs more than \<open>p - 10\<close> digits before
  it.\<close>

definition round10 :: "rat \<Rightarrow> rat" where
  "round10 x =
     (let s = x * 10 ^ 10
      in (if 0 \<le> s then of_int \<lfloor>s + 1 / 2\<rfloor> else - of_int \<lfloor>- s + 1 / 2\<rfloor>) / 10 ^ 10)"

definition numeric :: "nat \<Rightarrow> rat \<Rightarrow> rat option" where
  "numeric p x = (if \<bar>round10 x\<bar> < 10 ^ (p - 10) then Some (round10 x) else None)"

definition numeric_null :: "nat \<Rightarrow> rat option \<Rightarrow> rat option option" where
  "numeric_null p x = (case x of None \<Rightarrow> Some None | Some v \<Rightarrow> map_option Some (numeric p v))"

section \<open>The world outside\<close>

text \<open>
  The state the program shares between calls is the two tables. \<open>trace\<close> is the list of
  the calls that left the process, oldest first: one entry for each
  \<open>psycopg2.connect\<close>, \<open>cur.execute\<close> and \<open>requests.get\<close> the code reaches.
\<close>

datatype call =
    Db_connect
  | Select_price string
  | Insert_price string
  | Select_news string
  | Insert_news string
  | Get_price string
  | Get_news string
  | Get_markets
  | Get_balance string
  | Get_txlist string
  | Get_tokentx string

record world =
  price_history :: "price_row list"
  news_cache :: "news_row list"
  trace :: "call list"

definition called :: "call \<Rightarrow> world \<Rightarrow> world" where
  "called c w = w\<lparr>trace := trace w @ [c]\<rparr>"

text \<open>What \<open>requests.get\<close> followed by \<open>raise_for_status()\<close> and \<open>json()\<close> gives:
  a \<open>RequestException\<close> with its text, or the decoded body.\<close>

datatype 'a http = RequestException string | Reply 'a

text \<open>One entry of the price feed's answer, read with \<open>.get\<close>: an absent field is
  \<open>None\<close>.\<close>

record quote =
  usd :: "number option"
  usd_market_cap :: "number option"
  usd_24h_vol :: "number option"

text \<open>One entry of the market listing.\<close>

record market =
  market_id :: string
  market_name :: string
  market_symbol :: string

text \<open>An Etherscan answer: \<open>status\<close>, \<open>message\<close> and \<open>result\<close>, each read with
  \<open>.get\<close>. The result of a balance request is the text of a number of wei; the result
  of a transaction listing is the list of the transactions' \<open>timeStamp\<close> texts.\<close>

record 'a etherscan =
  status :: "string option"
  message :: "string option"
  result :: "'a option"

text \<open>One entry of \<open>FULL_TOKEN_LIST_DETAILED\<close>.\<close>

record token_info =
  info_id :: string
  info_name :: string
  info_symbol :: string

text \<open>How a statement fails: the statement is refused and the connection stays open, or
  the connection is lost, which leaves it closed.\<close>

datatype db_failure = Statement_failed string | Connection_lost string

text \<open>What one cache-aside call meets: the clock reading (of \<open>datetime.now\<close> and of the
  database's \<open>NOW()\<close>), whether \<open>psycopg2.connect\<close> fails, and the failure, if any, of
  the \<open>SELECT\<close> and of the \<open>INSERT\<close> with its \<open>commit\<close>.\<close>

record storage =
  clock :: instant
  db_down :: bool
  select_error :: "db_failure option"
  insert_error :: "db_failure option"

text \<open>The environment of one query: the token index, the storage behaviour met by the
  price call and by the news call, the environment variables, the answers of the three
  providers, and what is left to Python and to the database driver.
  \<open>float_repr r\<close> is the decimal that the driver writes for the float \<open>r\<close>, the one
  \<open>repr\<close> prints; \<open>float_of d\<close> is \<open>float(d)\<close> of a \<open>Decimal\<close>, the float nearest to
  it. \<open>show_eth n\<close> is \<open>n / 10**18\<close> as \<open>f"{...:.4f}"\<close> prints it, and
  \<open>show_date t\<close> is \<open>datetime.utcfromtimestamp(t).strftime('%Y-%m-%d')\<close>; both raise
  on a number out of their range.\<close>

record env =
  token_index :: "token_info list"
  price_storage :: storage
  news_storage :: storage
  coingecko_price :: "string \<Rightarrow> (string \<rightharpoonup> quote) http"
  coingecko_markets :: "market list http"
  news_api_key :: "string option"
  newsapi :: "string \<Rightarrow> article list http"
  etherscan_api_key :: "string option"
  etherscan_balance :: "string \<Rightarrow> string etherscan http"
  etherscan_txlist :: "string \<Rightarrow> string list etherscan http"
  etherscan_tokentx :: "string \<Rightarrow> string list etherscan http"
  float_repr :: "rat \<Rightarrow> rat"
  float_of :: "rat \<Rightarrow> rat"
  show_eth :: "int \<Rightarrow> string attempt"
  show_date :: "int \<Rightarrow> string attempt"

text \<open>The \<open>except\<close> branch of a cache-aside call: \<open>conn.rollback()\<close>, then the error
  dict. On a connection that the failure left closed, \<open>rollback\<close> raises
  \<open>InterfaceError\<close>, and the exception leaves the call.\<close>

definition rolled_back :: "db_failure \<Rightarrow> string \<Rightarrow> (string + 'a) attempt" where
  "rolled_back f msg =
     (case f of
        Connection_lost x \<Rightarrow> Raises ''connection already closed''
      | Statement_failed x \<Rightarrow> Returns (Inl msg))"

definition failure_text :: "db_failure \<Rightarrow> string" where
  "failure_text f = (case f of Connection_lost x \<Rightarrow> x | Statement_failed x \<Rightarrow> x)"

section \<open>Fetching prices\<close>

text \<open>The dict with the keys \<open>price\<close>, \<open>market_cap\<close> and \<open>volume_24h\<close>. A dict with
  the key \<open>error\<close> is the left summand of a result, carrying the message.\<close>

record price_data =
  price_usd :: "number option"
  market_cap_usd :: "number option"
  volume_24h_usd :: "number option"

definition get_token_price_from_api ::
  "env \<Rightarrow> world \<Rightarrow> string \<Rightarrow> (string + price_data) \<times> world" where
  "get_token_price_from_api e w tid =
     (let w1 = called (Get_price tid) w
      in case coingecko_price e tid of
           RequestException x \<Rightarrow> (Inl (''API request failed: '' @ x), w1)
         | Reply data \<Rightarrow>
             (case data tid of
                None \<Rightarrow> (Inl (''Could not find price data for '' @ [CHR 39] @ tid @ [CHR 39] @ ''.''), w1)
              | Some q \<Rightarrow>
                  (Inr \<lparr>price_usd = usd q, market_cap_usd = usd_market_cap q,
                        volume_24h_usd = usd_24h_vol q\<rparr>, w1)))"

text \<open>The decimal the \<open>INSERT\<close> carries for a Python number: an \<open>int\<close> as it is, a
  \<open>float\<close> as the driver writes it.\<close>

definition sql_number :: "env \<Rightarrow> number \<Rightarrow> rat" where
  "sql_number e n = (case n of PyInt i \<Rightarrow> of_int i | PyFloat r \<Rightarrow> float_repr e r)"

text \<open>The \<open>INSERT\<close> into \<open>price_history\<close>: \<open>None\<close> when the statement raises (a
  \<open>NULL\<close> price, or a number out of the column's range), else the table with the new
  row, stamped by \<open>DEFAULT NOW()\<close>.\<close>

definition insert_price ::
  "env \<Rightarrow> price_row list \<Rightarrow> string \<Rightarrow> instant \<Rightarrow> price_data \<Rightarrow> price_row list option" where
  "insert_price e rows tid now d =
     (case price_usd d of
        None \<Rightarrow> None
      | Some p \<Rightarrow>
          (case (numeric 20 (sql_number e p),
                 numeric_null 30 (map_option (sql_number e) (market_cap_usd d)),
                 numeric_null 30 (map_option (sql_number e) (volume_24h_usd d))) of
             (Some p', Some m', Some v') \<Rightarrow>
               Some (rows @ [\<lparr>token_id = tid, price = p', market_cap = m', volume_24h = v',
                               fetched_at = now\<rparr>])
           | _ \<Rightarrow> None))"

text \<open>The decimal a row keeps for a number written in the environment \<open>e1\<close>, and the
  float a cache hit in the environment \<open>e2\<close> makes of it.\<close>

definition stored :: "env \<Rightarrow> number \<Rightarrow> rat" where
  "stored e1 n = round10 (sql_number e1 n)"

definition read_back :: "env \<Rightarrow> env \<Rightarrow> number \<Rightarrow> number" where
  "read_back e1 e2 n = PyFloat (float_of e2 (stored e1 n))"

definition db_error :: string where
  "db_error = ''An internal database error occurred.''"

text \<open>The cache hit: \<open>float\<close> of each column, which raises \<open>TypeError\<close> on \<open>None\<close>.\<close>

definition row_floats :: "env \<Rightarrow> price_row \<Rightarrow> price_data option" where
  "row_floats e r =
     (case (market_cap r, volume_24h r) of
        (Some m, Some v) \<Rightarrow>
          Some \<lparr>price_usd = Some (PyFloat (float_of e (price r))),
                market_cap_usd = Some (PyFloat (float_of e m)),
                volume_24h_usd = Some (PyFloat (float_of e v))\<rparr>
      | _ \<Rightarrow> None)"

text \<open>\<open>get_smart_token_price\<close>. An exception of the \<open>SELECT\<close> or of the \<open>INSERT\<close>
  goes through \<open>rolled_back\<close>; the \<open>TypeError\<close> of the cache hit and the refusal of
  the \<open>INSERT\<close> for its values happen on an open connection, where the rollback
  succeeds.\<close>

definition get_smart_token_price ::
  "env \<Rightarrow> world \<Rightarrow> string \<Rightarrow> (string + price_data) attempt \<times> world" where
  "get_smart_token_price e w tid =
     (let st = price_storage e; w1 = called Db_connect w
      in if db_down st then (Returns (Inl ''Database connection failed.''), w1)
         else
           let w2 = called (Select_price tid) w1
           in case select_error st of
                Some f \<Rightarrow> (rolled_back f db_error, w2)
              | None \<Rightarrow>
                  (case price_lookup (price_history w2) tid (clock st) of
                     Some cached_result \<Rightarrow>
                       (case row_floats e cached_result of
                          None \<Rightarrow> (Returns (Inl db_error), w2)
                        | Some d \<Rightarrow> (Returns (Inr d), w2))
                   | None \<Rightarrow>
                       (case get_token_price_from_api e w2 tid of
                          (Inl err, w3) \<Rightarrow> (Returns (Inl err), w3)
                        | (Inr api_data, w3) \<Rightarrow>
                            (let w4 = called (Insert_price tid) w3
                             in case insert_error st of
                                  Some f \<Rightarrow> (rolled_back f db_error, w4)
                                | None \<Rightarrow>
                                    (case insert_price e (price_history w4) tid (clock st)
                                            api_data of
                                       None \<Rightarrow> (Returns (Inl db_error), w4)
                                     | Some rows \<Rightarrow>
                                         (Returns (Inr api_data),
                                          w4\<lparr>price_history := rows\<rparr>))))))"

section \<open>Fetching news\<close>

definition get_news :: "env \<Rightarrow> world \<Rightarrow> string \<Rightarrow> (string + article list) \<times> world" where
  "get_news e w q =
     (if news_api_key e = None \<or> news_api_key e = Some []
      then (Inl ''NewsAPI key not found. Please set NEWS_API_KEY in your .env file.'', w)
      else
        let w1 = called (Get_news q) w
        in case newsapi e q of
             RequestException x \<Rightarrow> (Inl (''API request failed:'' @ x), w1)
           | Reply found \<Rightarrow> (Inr found, w1))"

text \<open>An article as \<open>get_news\<close> returns it, and as the \<open>JSONB\<close> column gives it back:
  \<open>jsonb\<close> keeps the keys of an object by length, so \<open>url\<close> comes before
  \<open>title\<close>.\<close>

definition article_json :: "article \<Rightarrow> json" where
  "article_json a = JObj [(''title'', opt_str (title a)), (''url'', opt_str (url a))]"

definition article_jsonb :: "article \<Rightarrow> json" where
  "article_jsonb a = JObj [(''url'', opt_str (url a)), (''title'', opt_str (title a))]"

text \<open>\<open>get_smart_news\<close>; what it returns is the dict \<open>news_data\<close> or an error.\<close>

definition get_smart_news :: "env \<Rightarrow> world \<Rightarrow> string \<Rightarrow> (string + json) attempt \<times> world" where
  "get_smart_news e w q =
     (let st = news_storage e; w1 = called Db_connect w
      in if db_down st then (Returns (Inl ''Database connection failed.''), w1)
         else
           let w2 = called (Select_news q) w1
           in case select_error st of
                Some f \<Rightarrow>
                  (rolled_back f (''An internal database error occurred: '' @ failure_text f), w2)
              | None \<Rightarrow>
                  (case news_lookup (news_cache w2) q (clock st) of
                     Some cached_result \<Rightarrow>
                       (Returns (Inr (JObj [(''articles'',
                           JArr (map article_jsonb (articles cached_result)))])), w2)
                   | None \<Rightarrow>
                       (case get_news e w2 q of
                          (Inl err, w3) \<Rightarrow> (Returns (Inl err), w3)
                        | (Inr found, w3) \<Rightarrow>
                            (let w4 = called (Insert_news q) w3
                             in case insert_error st of
                                  Some f \<Rightarrow>
                                    (rolled_back f
                                       (''An internal database error occurred: '' @
                                        failure_text f), w4)
                                | None \<Rightarrow>
                                    (Returns (Inr (JObj [(''articles'',
                                        JArr (map article_json found))])),
                                     w4\<lparr>news_cache := news_cache w4 @
                                          [\<lparr>query = q, articles = found,
                                            news_fetched_at = clock st\<rparr>]\<rparr>)))))"

section \<open>Wallets and the token list\<close>

record wallet_info =
  address :: string
  etherscan_url :: string
  eth_balance :: string
  normal_transaction_count :: nat
  token_transaction_count :: nat
  first_transaction :: string
  last_transaction :: string

text \<open>\<open>data.get('status') == '1' and data.get('result') is not None\<close>, then the result,
  else the empty list.\<close>

definition listed :: "'a list etherscan \<Rightarrow> 'a list" where
  "listed d =
     (case result d of
        Some r \<Rightarrow> if status d = Some ''1'' then r else []
      | None \<Rightarrow> [])"

text \<open>\<open>int(s)\<close>, raising \<open>ValueError\<close> on a text that is no number.\<close>

definition int_of :: "string \<Rightarrow> int attempt" where
  "int_of s =
     (case py_int s of
        None \<Rightarrow>
          Raises (''invalid literal for int() with base 10: '' @ [CHR 39] @ s @ [CHR 39])
      | Some n \<Rightarrow> Returns n)"

text \<open>The date of a transaction: \<open>int\<close> of its \<open>timeStamp\<close>, then
  \<open>utcfromtimestamp\<close> and \<open>strftime\<close>.\<close>

definition tx_date :: "env \<Rightarrow> string \<Rightarrow> string attempt" where
  "tx_date e stamp = (case int_of stamp of Raises x \<Rightarrow> Raises x | Returns t \<Rightarrow> show_date e t)"

text \<open>\<open>get_wallet_info\<close>. Only a \<open>RequestException\<close> is caught: what \<open>int\<close>, the
  division and the dates raise leaves the call.\<close>

definition get_wallet_info ::
  "env \<Rightarrow> world \<Rightarrow> string \<Rightarrow> (string + wallet_info) attempt \<times> world" where
  "get_wallet_info e w addr =
     (if etherscan_api_key e = None \<or> etherscan_api_key e = Some []
      then (Returns (Inl ''Etherscan API key not found.''), w)
      else
        let w1 = called (Get_balance addr) w
        in case etherscan_balance e addr of
             RequestException x \<Rightarrow> (Returns (Inl (''API request failed: '' @ x)), w1)
           | Reply balance_data \<Rightarrow>
               if status balance_data \<noteq> Some ''1''
               then (Returns (Inl (case message balance_data of
                                     None \<Rightarrow> ''Failed to fetch balance''
                                   | Some m \<Rightarrow> m)), w1)
               else
                 (case (case result balance_data of
                          None \<Rightarrow> Returns 0
                        | Some s \<Rightarrow> int_of s) of
                    Raises x \<Rightarrow> (Raises x, w1)
                  | Returns wei \<Rightarrow>
                      (case show_eth e wei of
                         Raises x \<Rightarrow> (Raises x, w1)
                       | Returns eth \<Rightarrow>
                           let w2 = called (Get_txlist addr) w1
                           in case etherscan_txlist e addr of
                                RequestException x \<Rightarrow>
                                  (Returns (Inl (''API request failed: '' @ x)), w2)
                              | Reply normal_tx_data \<Rightarrow>
                                  let normal_tx_list = listed normal_tx_data;
                                      w3 = called (Get_tokentx addr) w2
                                  in case etherscan_tokentx e addr of
                                       RequestException x \<Rightarrow>
                                         (Returns (Inl (''API request failed: '' @ x)), w3)
                                     | Reply token_tx_data \<Rightarrow>
                                         (case (if normal_tx_list = [] then Returns ''N/A''
                                                else tx_date e (hd normal_tx_list)) of
                                            Raises x \<Rightarrow> (Raises x, w3)
                                          | Returns first_tx_date \<Rightarrow>
                                              (case (if normal_tx_list = [] then Returns ''N/A''
                                                     else tx_date e (last normal_tx_list)) of
                                                 Raises x \<Rightarrow> (Raises x, w3)
                                               | Returns last_tx_date \<Rightarrow>
                                                   (Returns (Inr
                                                      \<lparr>address = addr,
                                                       etherscan_url =
                                                         ''https://etherscan.io/address/'' @ addr,
                                                       eth_balance = eth @ '' ETH'',
                                                       normal_transaction_count =
                                                         length normal_tx_list,
                                                       token_transaction_count =
                                                         length (listed token_tx_data),
                                                       first_transaction = first_tx_date,
                                                       last_transaction = last_tx_date\<rparr>),
                                                    w3))))))"

text \<open>One entry of the token list: the dict with the keys \<open>id\<close> and \<open>text\<close>.\<close>

record token_entry =
  entry_id :: string
  entry_text :: string

definition get_token_list :: "env \<Rightarrow> world \<Rightarrow> token_entry list \<times> world" where
  "get_token_list e w =
     (let w1 = called Get_markets w
      in case coingecko_markets e of
           RequestException x \<Rightarrow> ([\<lparr>entry_id = [], entry_text = ''Error fetching tokens''\<rparr>], w1)
         | Reply found \<Rightarrow>
             (map (\<lambda>t. \<lparr>entry_id = market_id t,
                         entry_text = market_name t @ '' ('' @ py_upper (market_symbol t) @ '')''\<rparr>)
                found, w1))"

section \<open>Reading the question\<close>

datatype intent = GET_PRICE | GET_NEWS | GET_OVERVIEW | LIST_TOKENS | GET_WALLET_INFO

definition intent_name :: "intent \<Rightarrow> string" where
  "intent_name i =
     (case i of
        GET_PRICE \<Rightarrow> ''GET_PRICE''
      | GET_NEWS \<Rightarrow> ''GET_NEWS''
      | GET_OVERVIEW \<Rightarrow> ''GET_OVERVIEW''
      | LIST_TOKENS \<Rightarrow> ''LIST_TOKENS''
      | GET_WALLET_INFO \<Rightarrow> ''GET_WALLET_INFO'')"

text \<open>\<open>re.search(r'0x[a-f0-9]{40}', s)\<close>: the leftmost place where \<open>0x\<close> is followed by
  forty characters out of \<open>a\<close> to \<open>f\<close> and \<open>0\<close> to \<open>9\<close>, and the forty-two characters
  matched there.\<close>

definition is_hex :: "char \<Rightarrow> bool" where
  "is_hex c = ((48 \<le> ord c \<and> ord c \<le> 57) \<or> (97 \<le> ord c \<and> ord c \<le> 102))"

definition wallet_here :: "string \<Rightarrow> bool" where
  "wallet_here s =
     (starts_with s ''0x'' \<and> length (take 40 (drop 2 s)) = 40 \<and> list_all is_hex (take 40 (drop 2 s)))"

fun wallet_search :: "string \<Rightarrow> string option" where
  "wallet_search [] = None"
| "wallet_search (c # cs) =
     (if wallet_here (c # cs) then Some (take 42 (c # cs)) else wallet_search cs)"

text \<open>The two tests of the loop over the token index: the whole text is the token's id,
  name or symbol, or one of them stands in the text between spaces.\<close>

definition names_token :: "string \<Rightarrow> token_info \<Rightarrow> bool" where
  "names_token text_lower t =
     (text_lower = info_id t \<or> text_lower = info_name t \<or> text_lower = info_symbol t \<or>
      py_in ('' '' @ info_name t @ '' '') ('' '' @ text_lower @ '' '') \<or>
      py_in ('' '' @ info_symbol t @ '' '') ('' '' @ text_lower @ '' '') \<or>
      py_in ('' '' @ info_id t @ '' '') ('' '' @ text_lower @ '' ''))"

definition parse_natural_language_query ::
  "token_info list \<Rightarrow> string \<Rightarrow> intent \<times> string option" where
  "parse_natural_language_query index txt =
     (let text_lower = py_strip (py_lower txt)
      in case wallet_search text_lower of
           Some addr \<Rightarrow> (GET_WALLET_INFO, Some addr)
         | None \<Rightarrow>
             if py_in ''list'' text_lower \<or>
                (py_in ''show'' text_lower \<and> py_in ''token'' text_lower)
             then (LIST_TOKENS, None)
             else
               (if py_in ''price'' text_lower \<or> py_in ''how much'' text_lower \<or>
                   py_in ''cost'' text_lower
                then GET_PRICE
                else if py_in ''news'' text_lower \<or> py_in ''headlines'' text_lower \<or>
                        py_in ''latest'' text_lower
                then GET_NEWS
                else GET_OVERVIEW,
                map_option info_id (find (names_token text_lower) index)))"

section \<open>The event producer\<close>

text \<open>
  An event is the pair that \<open>format_event\<close> receives: its name and its data. The
  generator's run is the list of the events it yields, in order, how it ended, and the
  world it leaves. \<open>asyncio.sleep\<close> yields nothing and is left out.
\<close>

type_synonym event = "string \<times> json"

datatype outcome = Completed | Raised string

definition format_event :: "json_module \<Rightarrow> event \<Rightarrow> string" where
  "format_event js ev = dumps js (JObj [(''event'', JStr (fst ev)), (''data'', snd ev)]) @ [CHR 10]"

definition error_json :: "string \<Rightarrow> json" where
  "error_json msg = JObj [(''error'', JStr msg)]"

definition price_json :: "price_data \<Rightarrow> json" where
  "price_json d =
     JObj [(''price'', opt_num (price_usd d)), (''market_cap'', opt_num (market_cap_usd d)),
           (''volume_24h'', opt_num (volume_24h_usd d))]"

definition wallet_json :: "wallet_info \<Rightarrow> json" where
  "wallet_json i =
     JObj [(''address'', JStr (address i)),
           (''etherscan_url'', JStr (etherscan_url i)),
           (''eth_balance'', JStr (eth_balance i)),
           (''normal_transaction_count'', JNum (PyInt (int (normal_transaction_count i)))),
           (''token_transaction_count'', JNum (PyInt (int (token_transaction_count i)))),
           (''first_transaction'', JStr (first_transaction i)),
           (''last_transaction'', JStr (last_transaction i))]"

definition entry_json :: "token_entry \<Rightarrow> json" where
  "entry_json t = JObj [(''id'', JStr (entry_id t)), (''text'', JStr (entry_text t))]"

text \<open>The price step and the news step: a status line, the cache-aside call, and
  \<open>error\<close> when the returned dict has the key \<open>error\<close>, else the result event. The
  call is made outside any \<open>try\<close>: when it raises, the step yields no more, and the
  exception, the second component, leaves the generator.\<close>

definition price_step :: "env \<Rightarrow> world \<Rightarrow> string \<Rightarrow> event list \<times> string option \<times> world" where
  "price_step e w tok =
     (case get_smart_token_price e w tok of
        (Raises x, w1) \<Rightarrow>
          ([(''status_update'', JStr (''Fetching price for '' @ tok @ ''...''))], Some x, w1)
      | (Returns (Inl err), w1) \<Rightarrow>
          ([(''status_update'', JStr (''Fetching price for '' @ tok @ ''...'')),
            (''error'', error_json err)], None, w1)
      | (Returns (Inr price_data), w1) \<Rightarrow>
          ([(''status_update'', JStr (''Fetching price for '' @ tok @ ''...'')),
            (''price_result'', price_json price_data)], None, w1))"

definition news_step :: "env \<Rightarrow> world \<Rightarrow> string \<Rightarrow> event list \<times> string option \<times> world" where
  "news_step e w tok =
     (case get_smart_news e w tok of
        (Raises x, w1) \<Rightarrow>
          ([(''status_update'', JStr (''Fetching news for '' @ tok @ ''...''))], Some x, w1)
      | (Returns (Inl err), w1) \<Rightarrow>
          ([(''status_update'', JStr (''Fetching news for '' @ tok @ ''...'')),
            (''error'', error_json err)], None, w1)
      | (Returns (Inr news_data), w1) \<Rightarrow>
          ([(''status_update'', JStr (''Fetching news for '' @ tok @ ''...'')),
            (''news_result'', news_data)], None, w1))"

definition recognized :: "intent \<Rightarrow> string option \<Rightarrow> event" where
  "recognized i tok =
     (''intent_recognized'', JObj [(''intent'', JStr (intent_name i)), (''token'', opt_str tok)])"

definition done_event :: event where
  "done_event = (''done'', JStr ''Stream finished.'')"

definition no_subject :: event where
  "no_subject =
     (''error'',
      JObj [(''message'',
             JStr (''Sorry, I couldn'' @ [CHR 39] @
                   ''t identify a cryptocurrency in your question.''))])"

text \<open>The events of \<open>stream_agent_response\<close>. In the wallet branch the token is sliced,
  which raises \<open>TypeError\<close> on \<open>None\<close>; \<open>not token\<close> holds of \<open>None\<close> and of the
  empty string. An exception of \<open>get_wallet_info\<close> or of a step ends the generator
  where it stands.\<close>

definition stream_events :: "env \<Rightarrow> world \<Rightarrow> string \<Rightarrow> event list \<times> outcome \<times> world" where
  "stream_events e w question =
     (case parse_natural_language_query (token_index e) question of
        (intent, token) \<Rightarrow>
          if intent = GET_WALLET_INFO then
            (case token of
               None \<Rightarrow>
                 ([recognized intent token],
                  Raised ([CHR 39] @ ''NoneType'' @ [CHR 39] @ '' object is not subscriptable''), w)
             | Some addr \<Rightarrow>
                 (case get_wallet_info e w addr of
                    (Raises x, w1) \<Rightarrow>
                      ([recognized intent token,
                        (''status_update'',
                         JStr (''Fetching info for wallet '' @ py_slice addr None (Some 6) @
                               ''...'' @ py_slice addr (Some (- 4)) None))],
                       Raised x, w1)
                  | (Returns wallet_data, w1) \<Rightarrow>
                      ([recognized intent token,
                        (''status_update'',
                         JStr (''Fetching info for wallet '' @ py_slice addr None (Some 6) @
                               ''...'' @ py_slice addr (Some (- 4)) None)),
                        (''wallet_info_result'',
                         (case wallet_data of
                            Inl err \<Rightarrow> error_json err
                          | Inr i \<Rightarrow> wallet_json i)),
                        done_event], Completed, w1)))
          else if intent = LIST_TOKENS then
            (case get_token_list e w of
               (token_list, w1) \<Rightarrow>
                 ([recognized intent token,
                   (''status_update'', JStr ''Fetching full token list...''),
                   (''token_list_result'', JObj [(''tokens'', JArr (map entry_json token_list))]),
                   done_event], Completed, w1))
          else
            (case token of
               None \<Rightarrow> ([recognized intent token, no_subject, done_event], Completed, w)
             | Some tok \<Rightarrow>
                 if tok = [] then ([recognized intent token, no_subject, done_event], Completed, w)
                 else
                   (case (if intent = GET_PRICE \<or> intent = GET_OVERVIEW
                          then price_step e w tok else ([], None, w)) of
                      (price_events, Some x, w1) \<Rightarrow>
                        (recognized intent token # price_events, Raised x, w1)
                    | (price_events, None, w1) \<Rightarrow>
                        (case (if intent = GET_NEWS \<or> intent = GET_OVERVIEW
                               then news_step e w1 tok else ([], None, w1)) of
                           (news_events, Some x, w2) \<Rightarrow>
                             (recognized intent token # price_events @ news_events,
                              Raised x, w2)
                         | (news_events, None, w2) \<Rightarrow>
                             (recognized intent token # price_events @ news_events @
                              [done_event], Completed, w2)))))"

text \<open>The lines the generator yields.\<close>

definition stream_agent_response ::
  "json_module \<Rightarrow> env \<Rightarrow> world \<Rightarrow> string \<Rightarrow> string list \<times> outcome \<times> world" where
  "stream_agent_response js e w question =
     (case stream_events e w question of
        (events, how, w1) \<Rightarrow> (map (format_event js) events, how, w1))"

section \<open>The SSE adapter\<close>

text \<open>The two chunks yielded for one event: \<open>event: <name>\<close> and \<open>data: <json>\<close> with
  a blank line after it. The text is already in UTF-8, so \<open>encode\<close> leaves it as it
  is.\<close>

definition sse_frame :: "json_module \<Rightarrow> string \<Rightarrow> json \<Rightarrow> string list" where
  "sse_frame js name data =
     [''event: '' @ name @ [CHR 10], ''data: '' @ dumps js data @ [CHR 10, CHR 10]]"

definition event_text :: "json_module \<Rightarrow> json \<Rightarrow> string" where
  "event_text js v = (case v of JStr s \<Rightarrow> s | _ \<Rightarrow> str_of js v)"

text \<open>The body of the loop for one line: the chunks it yields, or the text of the
  \<open>AttributeError\<close> that \<open>payload.get\<close> raises when the line decodes to something
  that is not a dict. Decoded data is always of a type the loop leaves alone, so the
  conversion \<open>data = str(data)\<close> is never taken.\<close>

definition adapt_line :: "json_module \<Rightarrow> string \<Rightarrow> string + string list" where
  "adapt_line js line =
     (if line = [] then Inr []
      else
        case loads js line of
          None \<Rightarrow> Inr (sse_frame js ''LOG'' (JObj [(''message'', JStr (py_strip line))]))
        | Some (JObj payload) \<Rightarrow>
            Inr (sse_frame js
                   (event_text js (if truthy (dict_get payload ''event'')
                                   then dict_get payload ''event'' else JStr ''message''))
                   (dict_get payload ''data''))
        | Some v \<Rightarrow>
            Inl ([CHR 39] @ type_name js v @ [CHR 39] @ '' object has no attribute '' @
                 [CHR 39] @ ''get'' @ [CHR 39]))"

text \<open>The loop: the chunks yielded so far, and the exception that ended it, if any.\<close>

fun adapt_lines :: "json_module \<Rightarrow> string list \<Rightarrow> string list \<times> string option" where
  "adapt_lines js [] = ([], None)"
| "adapt_lines js (line # rest) =
     (case adapt_line js line of
        Inl x \<Rightarrow> ([], Some x)
      | Inr chunks \<Rightarrow>
          (case adapt_lines js rest of (later, raised) \<Rightarrow> (chunks @ later, raised)))"

definition error_frame :: "json_module \<Rightarrow> string \<Rightarrow> string list" where
  "error_frame js x =
     [''event: error'' @ [CHR 10],
      ''data: '' @ dumps js (JObj [(''message'', JStr x)]) @ [CHR 10, CHR 10]]"

definition sentinel :: string where
  "sentinel = ''event: done'' @ [CHR 10] @ ''data: {}'' @ [CHR 10, CHR 10]"

text \<open>The chunks of \<open>_sse_adapter\<close>: after the last line the sentinel, and after an
  exception, of the loop or of the generator, the error frame.\<close>

definition sse_adapter :: "json_module \<Rightarrow> env \<Rightarrow> world \<Rightarrow> string \<Rightarrow> string list" where
  "sse_adapter js e w prompt =
     (case stream_agent_response js e w prompt of
        (lines, how, w1) \<Rightarrow>
          (case adapt_lines js lines of
             (chunks, Some x) \<Rightarrow> chunks @ error_frame js x
           | (chunks, None) \<Rightarrow>
               (case how of
                  Raised x \<Rightarrow> chunks @ error_frame js x
                | Completed \<Rightarrow> chunks @ [sentinel])))"

section \<open>The chat bot\<close>

record session =
  processor_id :: string
  activity_id :: string
  request_id :: string
  last_token :: "string option"
  last_intent :: "string option"
  history :: "string list"

definition TRIGGER_WORDS :: "string list" where
  "TRIGGER_WORDS =
     [''price'', ''news'', ''overview'', ''now'', ''price now'', ''news now'', ''check price'',
      ''check news'']"

definition build_contextual_prompt :: "string \<Rightarrow> session \<Rightarrow> string" where
  "build_contextual_prompt raw s =
     (let msg = py_strip raw
      in case last_token s of
           None \<Rightarrow> msg
         | Some tok \<Rightarrow>
             if tok = [] then msg
             else if List.member TRIGGER_WORDS (py_lower msg) then tok @ '' '' @ msg
             else if List.member [''price'', ''news'', ''overview'', ''now''] (py_lower msg)
             then tok @ '' '' @ msg
             else msg)"

text \<open>\<open>html.escape(x, quote=True)\<close>.\<close>

definition escape_char :: "char \<Rightarrow> string" where
  "escape_char c =
     (if c = CHR ''&'' then ''&amp;''
      else if c = CHR ''<'' then ''&lt;''
      else if c = CHR ''>'' then ''&gt;''
      else if c = CHR 34 then ''&quot;''
      else if c = CHR 39 then ''&#x27;''
      else [c])"

definition h :: "string \<Rightarrow> string" where
  "h x = concat (map escape_char x)"

text \<open>A message as the bot sends or edits it: its text, and the rows of buttons of its
  inline keyboard (label and callback data), \<open>None\<close> when no \<open>reply_markup\<close> is
  passed.\<close>

record button =
  label :: string
  callback_data :: string

record message =
  body :: string
  reply_markup :: "button list list option"

definition show_more :: string where
  "show_more = ''Show More '' @ [CHR 0xE2, CHR 0x9E, CHR 0xA1, CHR 0xEF, CHR 0xB8, CHR 0x8F]"

definition tokens_header :: string where
  "tokens_header =
     [CHR 0xE2, CHR 0x9C, CHR 0x85] @ '' <b>Here are the top tokens available:</b>'' @ [CHR 10]"

definition bullet :: "token_entry \<Rightarrow> string" where
  "bullet t = [CHR 0xE2, CHR 0x80, CHR 0xA2] @ '' '' @ h (entry_text t)"

definition tokens_page :: "token_entry list \<Rightarrow> string" where
  "tokens_page shown = tokens_header @ py_join [CHR 10] (map bullet shown)"

text \<open>The \<open>token_list_result\<close> branch of \<open>handle_message\<close>: the list is kept in
  \<open>bot_data\<close> and its first twenty entries are shown.\<close>

definition token_list_result :: "token_entry list \<Rightarrow> token_entry list \<times> message" where
  "token_list_result tokens =
     (tokens,
      \<lparr>body = tokens_page (py_slice tokens None (Some 20)),
       reply_markup =
         (if length tokens > 20
          then Some [[\<lparr>label = show_more, callback_data = ''more_tokens_20''\<rparr>]]
          else None)\<rparr>)"

text \<open>\<open>button_callback\<close>, from the callback data of the pressed button and the list kept
  in \<open>bot_data\<close> (empty when there is none).\<close>

definition button_callback :: "string \<Rightarrow> token_entry list \<Rightarrow> message" where
  "button_callback data full_token_list =
     (case py_int (last (py_split CHR ''_'' data)) of
        None \<Rightarrow> \<lparr>body = ''Invalid button data.'', reply_markup = None\<rparr>
      | Some next_start_index \<Rightarrow>
          if full_token_list = []
          then \<lparr>body = ''Sorry, the token list has expired. Please ask again.'',
                reply_markup = None\<rparr>
          else
            let end_index = next_start_index + 20
            in \<lparr>body = tokens_page
                         (py_slice full_token_list (Some next_start_index) (Some end_index)),
                reply_markup =
                  Some (if end_index < int (length full_token_list)
                        then [[\<lparr>label = show_more,
                                callback_data = ''more_tokens_'' @ str_int end_index\<rparr>]]
                        else [])\<rparr>)"

section \<open>Example inputs\<close>



definition quiet_storage :: storage where
  "quiet_storage =
     \<lparr>clock = minutes 10, db_down = False, select_error = None, insert_error = None\<rparr>"

text \<open>The index \<open>load_full_token_list\<close> falls back to.\<close>

definition fallback_index :: "token_info list" where
  "fallback_index =
     [\<lparr>info_id = ''bitcoin'', info_name = ''bitcoin'', info_symbol = ''btc''\<rparr>,
      \<lparr>info_id = ''ethereum'', info_name = ''ethereum'', info_symbol = ''eth''\<rparr>,
      \<lparr>info_id = ''pi-network'', info_name = ''pi network'', info_symbol = ''pi''\<rparr>]"

text \<open>A working database, a price feed that knows bitcoin, a news feed with one article,
  and no Etherscan key. The numbers of the examples are whole numbers below \<open>2 ^ 53\<close>
  and the float \<open>0.125\<close>, which \<open>repr\<close> and \<open>float\<close> leave as they are.\<close>

definition example_env :: env where
  "example_env =
     \<lparr>token_index = fallback_index,
      price_storage = quiet_storage,
      news_storage = quiet_storage,
      coingecko_price =
        (\<lambda>t. Reply [''bitcoin'' \<mapsto>
                      \<lparr>usd = Some (PyInt 67000), usd_market_cap = Some (PyInt 1320000000000),
                       usd_24h_vol = Some (PyInt 25000000000)\<rparr>]),
      coingecko_markets = Reply [],
      news_api_key = Some ''key'',
      newsapi =
        (\<lambda>q. Reply [\<lparr>title = Some ''Bitcoin rallies'', url = Some ''https://example.org/a''\<rparr>]),
      etherscan_api_key = None,
      etherscan_balance = (\<lambda>a. RequestException ''timeout''),
      etherscan_txlist = (\<lambda>a. RequestException ''timeout''),
      etherscan_tokentx = (\<lambda>a. RequestException ''timeout''),
      float_repr = (\<lambda>r. r),
      float_of = (\<lambda>d. d),
      show_eth = (\<lambda>n. Returns ''0.0000''),
      show_date = (\<lambda>t. Returns ''1970-01-01'')\<rparr>"

definition empty_world :: world where
  "empty_world = \<lparr>price_history = [], news_cache = [], trace = []\<rparr>"

text \<open>The same, with the connection lost while the price \<open>SELECT\<close> runs.\<close>

definition lost_connection_env :: env where
  "lost_connection_env =
     example_env\<lparr>price_storage :=
       quiet_storage\<lparr>select_error :=
         Some (Connection_lost ''server closed the connection unexpectedly'')\<rparr>\<rparr>"

definition vitalik :: string where
  "vitalik = ''0xd8dA6BF26964aF9D7eEd9e03E53415D37aA96045''"

text \<open>The price feed answers for bitcoin without a market cap; and the world after one
  price query in that environment.\<close>

definition null_cap_env :: env where
  "null_cap_env =
     example_env\<lparr>coingecko_price :=
       (\<lambda>t. Reply [''bitcoin'' \<mapsto>
                     \<lparr>usd = Some (PyInt 67000), usd_market_cap = None,
                      usd_24h_vol = Some (PyInt 25000000000)\<rparr>])\<rparr>"

definition null_cap_world :: world where
  "null_cap_world =
     \<lparr>price_history =
        [\<lparr>token_id = ''bitcoin'', price = 67000, market_cap = None,
          volume_24h = Some 25000000000, fetched_at = minutes 10\<rparr>],
      news_cache = [],
      trace = [Db_connect, Select_price ''bitcoin'', Get_price ''bitcoin'',
               Insert_price ''bitcoin'']\<rparr>"

text \<open>The price feed answers with a market cap of \<open>2 ^ 53 + 1\<close>, which \<open>float\<close> turns
  into \<open>2 ^ 53\<close>; and the world after one price query in that environment.\<close>

definition big_cap_env :: env where
  "big_cap_env =
     example_env\<lparr>coingecko_price :=
       (\<lambda>t. Reply [''bitcoin'' \<mapsto>
                     \<lparr>usd = Some (PyInt 67000), usd_market_cap = Some (PyInt 9007199254740993),
                      usd_24h_vol = Some (PyInt 25000000000)\<rparr>]),
     float_of := (\<lambda>d. if d = 9007199254740993 then 9007199254740992 else d)\<rparr>"

definition big_cap_world :: world where
  "big_cap_world =
     \<lparr>price_history =
        [\<lparr>token_id = ''bitcoin'', price = 67000, market_cap = Some 9007199254740993,
          volume_24h = Some 25000000000, fetched_at = minutes 10\<rparr>],
      news_cache = [],
      trace = [Db_connect, Select_price ''bitcoin'', Get_price ''bitcoin'',
               Insert_price ''bitcoin'']\<rparr>"

text \<open>The world after the question \<open>bitcoin price\<close> in \<open>example_env\<close>; and the
  environment four minutes later, with the price feed unreachable.\<close>

definition cached_world :: world where
  "cached_world =
     \<lparr>price_history =
        [\<lparr>token_id = ''bitcoin'', price = 67000, market_cap = Some 1320000000000,
          volume_24h = Some 25000000000, fetched_at = minutes 10\<rparr>],
      news_cache = [],
      trace = [Db_connect, Select_price ''bitcoin'', Get_price ''bitcoin'',
               Insert_price ''bitcoin'']\<rparr>"

definition later_env :: env where
  "later_env =
     example_env\<lparr>price_storage := quiet_storage\<lparr>clock := minutes 14\<rparr>,
                 coingecko_price := (\<lambda>t. RequestException ''unreachable'')\<rparr>"

text \<open>What \<open>json.dumps\<close> and \<open>json.loads\<close> do on the values and the lines of the
  question \<open>price now\<close>, written out; the other values are not met there.\<close>

definition price_now_json :: json_module where
  \<open>price_now_json =
     \<lparr>dumps = (\<lambda>v.
        if v = JObj [(''event'', JStr ''intent_recognized''),
                     (''data'', JObj [(''intent'', JStr ''GET_PRICE''), (''token'', JNull)])]
        then ''{"event": "intent_recognized", "data": {"intent": "GET_PRICE", "token": null}}''
        else if v = JObj [(''intent'', JStr ''GET_PRICE''), (''token'', JNull)]
        then ''{"intent": "GET_PRICE", "token": null}''
        else if v = JObj [(''event'', JStr ''error''), (''data'', snd no_subject)]
        then ''{"event": "error", "data": {"message": "Sorry, I couldn'' @ [CHR 39] @
             ''t identify a cryptocurrency in your question."}}''
        else if v = snd no_subject
        then ''{"message": "Sorry, I couldn'' @ [CHR 39] @
             ''t identify a cryptocurrency in your question."}''
        else if v = JObj [(''event'', JStr ''done''), (''data'', JStr ''Stream finished.'')]
        then ''{"event": "done", "data": "Stream finished."}''
        else if v = JStr ''Stream finished.''
        then ''"Stream finished."''
        else []),
      loads = (\<lambda>s.
        if s = ''{"event": "intent_recognized", "data": {"intent": "GET_PRICE", "token": null}}'' @
               [CHR 10]
        then Some (JObj [(''event'', JStr ''intent_recognized''),
                         (''data'', JObj [(''intent'', JStr ''GET_PRICE''), (''token'', JNull)])])
        else if s = ''{"event": "error", "data": {"message": "Sorry, I couldn'' @ [CHR 39] @
               ''t identify a cryptocurrency in your question."}}'' @ [CHR 10]
        then Some (JObj [(''event'', JStr ''error''), (''data'', snd no_subject)])
        else if s = ''{"event": "done", "data": "Stream finished."}'' @ [CHR 10]
        then Some (JObj [(''event'', JStr ''done''), (''data'', JStr ''Stream finished.'')])
        else None),
      str_of = (\<lambda>v. []),
      type_name = (\<lambda>v. [])\<rparr>\<close>

text \<open>The same for the two events of \<open>bitcoin price\<close> that precede a lost connection,
  and for the message of the exception.\<close>

definition lost_json :: json_module where
  \<open>lost_json =
     \<lparr>dumps = (\<lambda>v.
        if v = JObj [(''event'', JStr ''intent_recognized''),
                     (''data'', JObj [(''intent'', JStr ''GET_PRICE''),
                                      (''token'', JStr ''bitcoin'')])]
        then ''{"event": "intent_recognized", "data": {"intent": "GET_PRICE", "token": "bitcoin"}}''
        else if v = JObj [(''intent'', JStr ''GET_PRICE''), (''token'', JStr ''bitcoin'')]
        then ''{"intent": "GET_PRICE", "token": "bitcoin"}''
        else if v = JObj [(''event'', JStr ''status_update''),
                          (''data'', JStr ''Fetching price for bitcoin...'')]
        then ''{"event": "status_update", "data": "Fetching price for bitcoin..."}''
        else if v = JStr ''Fetching price for bitcoin...''
        then ''"Fetching price for bitcoin..."''
        else if v = JObj [(''message'', JStr ''connection already closed'')]
        then ''{"message": "connection already closed"}''
        else []),
      loads = (\<lambda>s.
        if s = ''{"event": "intent_recognized", "data": {"intent": "GET_PRICE", "token": "bitcoin"}}'' @
               [CHR 10]
        then Some (JObj [(''event'', JStr ''intent_recognized''),
                         (''data'', JObj [(''intent'', JStr ''GET_PRICE''),
                                          (''token'', JStr ''bitcoin'')])])
        else if s = ''{"event": "status_update", "data": "Fetching price for bitcoin..."}'' @
               [CHR 10]
        then Some (JObj [(''event'', JStr ''status_update''),
                         (''data'', JStr ''Fetching price for bitcoin...'')])
        else None),
      str_of = (\<lambda>v. []),
      type_name = (\<lambda>v. [])\<rparr>\<close>

text \<open>An index with a token whose symbol is \<open>now\<close>, a price feed that knows it, and a
  session as \<open>_new_session\<close> makes it.\<close>

definition now_env :: env where
  "now_env =
     example_env\<lparr>token_index :=
       [\<lparr>info_id = ''changenow-token'', info_name = ''changenow'', info_symbol = ''now''\<rparr>],
     coingecko_price :=
       (\<lambda>t. Reply [''changenow-token'' \<mapsto>
                     \<lparr>usd = Some (PyFloat (1 / 8)), usd_market_cap = Some (PyInt 8000000),
                      usd_24h_vol = Some (PyInt 30000)\<rparr>])\<rparr>"

definition fresh_session :: session where
  "fresh_session =
     \<lparr>processor_id = ''01J0'', activity_id = ''01J1'', request_id = ''01J2'',
      last_token = None, last_intent = None, history = []\<rparr>"

text \<open>A token list of \<open>n\<close> entries.\<close>

definition numbered_tokens :: "nat \<Rightarrow> token_entry list" where
  "numbered_tokens n =
     map (\<lambda>i. \<lparr>entry_id = ''token-'' @ str_nat i, entry_text = ''Token '' @ str_nat i\<rparr>)
       [0..<n]"

section \<open>The cache lookup\<close>

lemma latest_None: "latest ts xs = None \<longleftrightarrow> xs = []"
  by (induction xs) (auto split: option.splits)


lemma select_latest_hit:
  "select_latest key ts rows k since \<noteq> None \<longleftrightarrow>
     (\<exists>r \<in> set rows. key r = k \<and> since \<le> ts r)"
  by (auto simp: select_latest_def latest_None filter_empty_conv)




section \<open>The shape of the event sequence\<close>

lemma parse_wallet_token:
  "parse_natural_language_query index q = (GET_WALLET_INFO, t) \<Longrightarrow> t \<noteq> None"
  by (cases "wallet_search (py_strip (py_lower q))")
     (auto simp: parse_natural_language_query_def Let_def split: if_splits)

lemma price_step_no_done: "filter (\<lambda>ev. fst ev = ''done'') (fst (price_step e w tok)) = []"
  by (auto simp: price_step_def split: prod.splits attempt.splits sum.splits)

lemma news_step_no_done: "filter (\<lambda>ev. fst ev = ''done'') (fst (news_step e w tok)) = []"
  by (auto simp: news_step_def split: prod.splits attempt.splits sum.splits)

lemma completed_stream_shape:
  assumes run: "stream_events e w question = (events, Completed, w')"
  shows "events \<noteq> [] \<and> fst (hd events) = ''intent_recognized'' \<and>
     fst (last events) = ''done'' \<and>
     length (filter (\<lambda>ev. fst ev = ''done'') events) = 1"
proof -
  obtain i t where p: "parse_natural_language_query (token_index e) question = (i, t)"
    by (cases "parse_natural_language_query (token_index e) question")
  show ?thesis
  proof (cases t)
    case None
    with p run show ?thesis
      by (cases i)
         (auto simp: stream_events_def recognized_def done_event_def no_subject_def
            split: prod.splits)
  next
    case (Some tok)
    obtain pe px pw where a: "price_step e w tok = (pe, px, pw)" by (cases "price_step e w tok")
    obtain ne nx nw where b: "news_step e pw tok = (ne, nx, nw)" by (cases "news_step e pw tok")
    obtain ne' nx' nw' where c: "news_step e w tok = (ne', nx', nw')"
      by (cases "news_step e w tok")
    from price_step_no_done [of e w tok] a
    have pe: "filter (\<lambda>ev. fst ev = ''done'') pe = []" by simp
    from news_step_no_done [of e pw tok] b
    have ne: "filter (\<lambda>ev. fst ev = ''done'') ne = []" by simp
    from news_step_no_done [of e w tok] c
    have ne': "filter (\<lambda>ev. fst ev = ''done'') ne' = []" by simp
    from p Some a b c pe ne ne' run show ?thesis
      by (cases i)
         (auto simp: stream_events_def recognized_def done_event_def no_subject_def
            split: prod.splits attempt.splits option.splits if_splits)
  qed
qed

text \<open>
  Claim C1, at an input where the code departs from it. The question is \<open>bitcoin
  price\<close> and the connection is lost while the price \<open>SELECT\<close> runs. The \<open>except\<close>
  branch of \<open>get_smart_token_price\<close> calls \<open>conn.rollback()\<close>, which raises on the
  closed connection; the producer calls the function outside any \<open>try\<close>, so the
  generator ends after \<open>intent_recognized\<close> and \<open>status_update\<close>: the sequence
  has no \<open>done\<close>. A run that completes has the shape the claim states
  (\<open>completed_stream_shape\<close>).
\<close>

theorem lost_connection_ends_stream_without_done:
  "stream_events lost_connection_env empty_world ''bitcoin price'' =
     ([recognized GET_PRICE (Some ''bitcoin''),
       (''status_update'', JStr ''Fetching price for bitcoin...'')],
      Raised ''connection already closed'',
      \<lparr>price_history = [], news_cache = [],
       trace = [Db_connect, Select_price ''bitcoin'']\<rparr>)"
  by code_simp

section \<open>Overview: price, then news\<close>

text \<open>
  Claim C4, at an input where the code departs from it. The question is \<open>bitcoin\<close>, an
  overview, and the connection is lost while the price \<open>SELECT\<close> runs. The exception
  of the rollback leaves the generator after the price status line: no \<open>error\<close> event
  stands for the price step, the news step is not run (no call follows the \<open>SELECT\<close>),
  and there is no \<open>done\<close>; yet in the world so left the news call would have
  succeeded.
\<close>

theorem lost_connection_skips_news_step:
  "stream_events lost_connection_env empty_world ''bitcoin'' =
     ([recognized GET_OVERVIEW (Some ''bitcoin''),
       (''status_update'', JStr ''Fetching price for bitcoin...'')],
      Raised ''connection already closed'',
      \<lparr>price_history = [], news_cache = [],
       trace = [Db_connect, Select_price ''bitcoin'']\<rparr>) \<and>
   get_smart_news lost_connection_env
       \<lparr>price_history = [], news_cache = [], trace = [Db_connect, Select_price ''bitcoin'']\<rparr>
       ''bitcoin'' =
     (Returns (Inr (JObj [(''articles'',
        JArr [JObj [(''title'', JStr ''Bitcoin rallies''),
                    (''url'', JStr ''https://example.org/a'')]])])),
      \<lparr>price_history = [],
       news_cache =
         [\<lparr>query = ''bitcoin'',
           articles =
             [\<lparr>title = Some ''Bitcoin rallies'', url = Some ''https://example.org/a''\<rparr>],
           news_fetched_at = minutes 10\<rparr>],
       trace = [Db_connect, Select_price ''bitcoin'', Db_connect, Select_news ''bitcoin'',
                Get_news ''bitcoin'', Insert_news ''bitcoin'']\<rparr>)"
  by code_simp

section \<open>No subject\<close>

text \<open>
  Claim C6, as the code has it. When the question is read as a price, news or overview
  request and no subject is found (the token is \<open>None\<close> or empty), the events are
  \<open>intent_recognized\<close>, one \<open>error\<close> whose message is \<open>Sorry, I couldn't identify a
  cryptocurrency in your question.\<close>, and \<open>done\<close>; the world is left as it was, so
  neither a provider nor the database was called.
\<close>

theorem unresolved_subject_short_circuit:
  assumes "parse_natural_language_query (token_index e) question = (i, t)"
    and "i = GET_PRICE \<or> i = GET_NEWS \<or> i = GET_OVERVIEW"
    and "t = None \<or> t = Some []"
  shows "stream_events e w question = ([recognized i t, no_subject, done_event], Completed, w)"
  using assms by (auto simp: stream_events_def)

text \<open>The question \<open>price now\<close> with the fallback index.\<close>

theorem unresolved_subject_short_circuit_witness:
  "stream_events example_env empty_world ''price now'' =
     ([recognized GET_PRICE None,
       (''error'',
        JObj [(''message'',
               JStr (''Sorry, I couldn'' @ [CHR 39] @
                     ''t identify a cryptocurrency in your question.''))]),
       done_event], Completed, empty_world)"
proof -
  have p: "parse_natural_language_query (token_index example_env) ''price now'' =
      (GET_PRICE, None)"
    by code_simp
  from unresolved_subject_short_circuit [OF p, of empty_world]
  show ?thesis by (simp add: no_subject_def)
qed

text \<open>The message is not \<open>no subject identified\<close>: for \<open>price now\<close>, a price request with
  no subject, no event of the sequence is an \<open>error\<close> with that message.\<close>

theorem unresolved_subject_message_counterexample:
  "parse_natural_language_query (token_index example_env) ''price now'' = (GET_PRICE, None) \<and>
   (''error'', JObj [(''message'', JStr ''no subject identified'')]) \<notin>
     set (fst (stream_events example_env empty_world ''price now''))"
  by code_simp

section \<open>Wallet lookups\<close>

text \<open>
  Claim C3, at an input where the code departs from it. The question names a wallet
  address and no Etherscan key is set, so \<open>get_wallet_info\<close> returns an error. The
  events are \<open>intent_recognized\<close>, \<open>status_update\<close>, \<open>wallet_info_result\<close> carrying the
  error dict, and \<open>done\<close>: the failure is sent under the name of the result, not as an
  \<open>error\<close> event, unlike the price and the news step.
\<close>

theorem wallet_failure_sent_as_result:
  "stream_events example_env empty_world (''wallet '' @ vitalik) =
     ([recognized GET_WALLET_INFO (Some ''0xd8da6bf26964af9d7eed9e03e53415d37aa96045''),
       (''status_update'', JStr ''Fetching info for wallet 0xd8da...6045''),
       (''wallet_info_result'', error_json ''Etherscan API key not found.''),
       done_event], Completed, empty_world)"
  by code_simp

section \<open>The price cache\<close>

lemma price_step_returned:
  "get_smart_token_price e w tok = (Returns (Inr d), w1) \<Longrightarrow>
   price_step e w tok =
     ([(''status_update'', JStr (''Fetching price for '' @ tok @ ''...'')),
       (''price_result'', price_json d)], None, w1)"
  by (simp add: price_step_def)

lemma called_simps [simp]:
  "price_history (called c w) = price_history w"
  "news_cache (called c w) = news_cache w"
  "trace (called c w) = trace w @ [c]"
  by (simp_all add: called_def)

lemma latest_snoc: "\<forall>x \<in> set xs. ts x \<le> ts r \<Longrightarrow> latest ts (xs @ [r]) = Some r"
  by (induction xs) (auto split: option.splits)

lemma price_lookup_after_insert:
  assumes miss: "price_lookup rows tid now1 = None"
    and within: "now2 - now1 \<le> minutes 5"
    and r: "token_id r = tid" "fetched_at r = now1"
  shows "price_lookup (rows @ [r]) tid now2 = Some r"
proof -
  have none: "\<forall>x \<in> set rows. token_id x = tid \<longrightarrow> fetched_at x < now1 - minutes 5"
    using miss select_latest_hit [of token_id fetched_at rows tid "now1 - minutes 5"]
    by (auto simp: price_lookup_def)
  have older:
    "\<forall>x \<in> set (filter (\<lambda>x. token_id x = tid \<and> now2 - minutes 5 \<le> fetched_at x) rows).
       fetched_at x \<le> fetched_at r"
    using none r by (auto simp: minutes_def)
  have fresh: "now2 - minutes 5 \<le> fetched_at r"
    using within r by simp
  show ?thesis
    using latest_snoc [OF older] fresh r
    by (simp add: price_lookup_def select_latest_def)
qed

lemma numeric_null_rounds: "numeric_null p x = Some y \<Longrightarrow> y = map_option round10 x"
  by (cases x) (auto simp: numeric_null_def numeric_def split: if_splits)

lemma insert_price_row:
  assumes "insert_price e rows tid now d = Some rows'"
  shows "\<exists>p. price_usd d = Some p \<and>
     rows' = rows @ [\<lparr>token_id = tid, price = stored e p,
                       market_cap = map_option (stored e) (market_cap_usd d),
                       volume_24h = map_option (stored e) (volume_24h_usd d),
                       fetched_at = now\<rparr>]"
proof -
  have comp: "map_option round10 (map_option (sql_number e) x) = map_option (stored e) x" for x
    by (cases x) (simp_all add: stored_def)
  from assms show ?thesis
    by (auto simp: insert_price_def numeric_def comp stored_def dest!: numeric_null_rounds
        split: option.splits if_splits)
qed

lemma first_query_populates:
  assumes "get_smart_token_price e w tid = (Returns (Inr d), w1)"
    and "price_history w1 \<noteq> price_history w"
  shows "price_lookup (price_history w) tid (clock (price_storage e)) = None \<and>
     insert_price e (price_history w) tid (clock (price_storage e)) d =
       Some (price_history w1)"
  using assms
  by (auto simp: get_smart_token_price_def get_token_price_from_api_def Let_def rolled_back_def
      split: if_splits option.splits sum.splits prod.splits http.splits db_failure.splits)

text \<open>
  Claim C9, as the code has it. Let a price query succeed and add a row to
  \<open>price_history\<close>, with a market cap and a volume in its payload. A second query for
  the same token, read by a clock at most five minutes later and answered by the
  database, makes no call but \<open>connect\<close> and \<open>SELECT\<close> (the price feed is not asked), and
  its payload, sent as \<open>price_result\<close>, holds for each number of the first payload the
  float of what the row keeps of it: the number as the \<open>INSERT\<close> wrote it, rounded to
  ten decimals.
\<close>

theorem second_query_served_from_cache:
  assumes first: "get_smart_token_price e1 w0 tid = (Returns (Inr d), w1)"
    and populated: "price_history w1 \<noteq> price_history w0"
    and present: "market_cap_usd d \<noteq> None" "volume_24h_usd d \<noteq> None"
    and up: "\<not> db_down (price_storage e2)" "select_error (price_storage e2) = None"
    and within: "clock (price_storage e2) - clock (price_storage e1) \<le> minutes 5"
  shows "get_smart_token_price e2 w1 tid =
     (Returns (Inr \<lparr>price_usd = map_option (read_back e1 e2) (price_usd d),
                    market_cap_usd = map_option (read_back e1 e2) (market_cap_usd d),
                    volume_24h_usd = map_option (read_back e1 e2) (volume_24h_usd d)\<rparr>),
      w1\<lparr>trace := trace w1 @ [Db_connect, Select_price tid]\<rparr>) \<and>
    price_step e2 w1 tid =
      ([(''status_update'', JStr (''Fetching price for '' @ tid @ ''...'')),
        (''price_result'',
         price_json \<lparr>price_usd = map_option (read_back e1 e2) (price_usd d),
                     market_cap_usd = map_option (read_back e1 e2) (market_cap_usd d),
                     volume_24h_usd = map_option (read_back e1 e2) (volume_24h_usd d)\<rparr>)],
       None, w1\<lparr>trace := trace w1 @ [Db_connect, Select_price tid]\<rparr>)"
proof -
  from first_query_populates [OF first populated]
  have miss: "price_lookup (price_history w0) tid (clock (price_storage e1)) = None"
    and ins: "insert_price e1 (price_history w0) tid (clock (price_storage e1)) d =
      Some (price_history w1)"
    by simp_all
  from insert_price_row [OF ins] obtain p where p: "price_usd d = Some p"
    and rows: "price_history w1 = price_history w0 @
      [\<lparr>token_id = tid, price = stored e1 p,
        market_cap = map_option (stored e1) (market_cap_usd d),
        volume_24h = map_option (stored e1) (volume_24h_usd d),
        fetched_at = clock (price_storage e1)\<rparr>]"
    by blast
  have hit: "price_lookup (price_history w1) tid (clock (price_storage e2)) =
      Some \<lparr>token_id = tid, price = stored e1 p,
        market_cap = map_option (stored e1) (market_cap_usd d),
        volume_24h = map_option (stored e1) (volume_24h_usd d),
        fetched_at = clock (price_storage e1)\<rparr>"
    unfolding rows by (rule price_lookup_after_insert [OF miss within]) simp_all
  from present obtain m v where mv: "market_cap_usd d = Some m" "volume_24h_usd d = Some v"
    by auto
  have second: "get_smart_token_price e2 w1 tid =
     (Returns (Inr \<lparr>price_usd = map_option (read_back e1 e2) (price_usd d),
                    market_cap_usd = map_option (read_back e1 e2) (market_cap_usd d),
                    volume_24h_usd = map_option (read_back e1 e2) (volume_24h_usd d)\<rparr>),
      w1\<lparr>trace := trace w1 @ [Db_connect, Select_price tid]\<rparr>)"
    using up hit p mv
    by (simp add: get_smart_token_price_def Let_def row_floats_def called_def read_back_def)
  from second price_step_returned [OF second] show ?thesis by simp
qed

text \<open>The question is asked at ten minutes past and again at fourteen, when the price feed
  is unreachable: the second answer holds the numbers of the first, as floats.\<close>

theorem second_query_served_from_cache_witness:
  "get_smart_token_price example_env empty_world ''bitcoin'' =
     (Returns (Inr \<lparr>price_usd = Some (PyInt 67000),
                    market_cap_usd = Some (PyInt 1320000000000),
                    volume_24h_usd = Some (PyInt 25000000000)\<rparr>), cached_world) \<and>
   get_smart_token_price later_env cached_world ''bitcoin'' =
     (Returns (Inr \<lparr>price_usd = Some (PyFloat 67000),
                    market_cap_usd = Some (PyFloat 1320000000000),
                    volume_24h_usd = Some (PyFloat 25000000000)\<rparr>),
      cached_world\<lparr>trace := trace cached_world @ [Db_connect, Select_price ''bitcoin'']\<rparr>)"
proof -
  have first: "get_smart_token_price example_env empty_world ''bitcoin'' =
     (Returns (Inr \<lparr>price_usd = Some (PyInt 67000),
                    market_cap_usd = Some (PyInt 1320000000000),
                    volume_24h_usd = Some (PyInt 25000000000)\<rparr>), cached_world)"
    by code_simp
  have populated: "price_history cached_world \<noteq> price_history empty_world"
    by code_simp
  have present:
    "market_cap_usd \<lparr>price_usd = Some (PyInt 67000),
                    market_cap_usd = Some (PyInt 1320000000000),
                    volume_24h_usd = Some (PyInt 25000000000)\<rparr> \<noteq> None"
    "volume_24h_usd \<lparr>price_usd = Some (PyInt 67000),
                    market_cap_usd = Some (PyInt 1320000000000),
                    volume_24h_usd = Some (PyInt 25000000000)\<rparr> \<noteq> None"
    by simp_all
  have up: "\<not> db_down (price_storage later_env)" "select_error (price_storage later_env) = None"
    by code_simp+
  have within: "clock (price_storage later_env) - clock (price_storage example_env) \<le> minutes 5"
    by code_simp
  have numbers: "read_back example_env later_env (PyInt 67000) = PyFloat 67000"
    "read_back example_env later_env (PyInt 1320000000000) = PyFloat 1320000000000"
    "read_back example_env later_env (PyInt 25000000000) = PyFloat 25000000000"
    by code_simp+
  from second_query_served_from_cache [OF first populated present up within] first
  show ?thesis by (simp add: numbers)
qed

text \<open>The payloads are not identical: the first holds the integers of the price feed, the
  second floats, and the market cap \<open>9007199254740993\<close> comes back as
  \<open>9007199254740992.0\<close>.\<close>

theorem second_query_payload_counterexample:
  "get_smart_token_price big_cap_env empty_world ''bitcoin'' =
     (Returns (Inr \<lparr>price_usd = Some (PyInt 67000),
                    market_cap_usd = Some (PyInt 9007199254740993),
                    volume_24h_usd = Some (PyInt 25000000000)\<rparr>), big_cap_world) \<and>
   get_smart_token_price big_cap_env big_cap_world ''bitcoin'' =
     (Returns (Inr \<lparr>price_usd = Some (PyFloat 67000),
                    market_cap_usd = Some (PyFloat 9007199254740992),
                    volume_24h_usd = Some (PyFloat 25000000000)\<rparr>),
      big_cap_world\<lparr>trace := trace big_cap_world @ [Db_connect, Select_price ''bitcoin'']\<rparr>) \<and>
   price_json \<lparr>price_usd = Some (PyInt 67000),
               market_cap_usd = Some (PyInt 9007199254740993),
               volume_24h_usd = Some (PyInt 25000000000)\<rparr> \<noteq>
   price_json \<lparr>price_usd = Some (PyFloat 67000),
               market_cap_usd = Some (PyFloat 9007199254740992),
               volume_24h_usd = Some (PyFloat 25000000000)\<rparr>"
  by code_simp

text \<open>
  Claim C10. When the database answers and the lookup finds a fresh row whose
  \<open>market_cap\<close> or \<open>volume_24h\<close> is \<open>NULL\<close>, \<open>get_smart_token_price\<close> returns the
  error \<open>An internal database error occurred.\<close>: the calls made are \<open>connect\<close> and
  \<open>SELECT\<close>, neither of which failed, and the price feed is not asked.
\<close>

theorem null_column_hit_reports_database_error:
  assumes "\<not> db_down (price_storage e)" and "select_error (price_storage e) = None"
    and "price_lookup (price_history w) tid (clock (price_storage e)) = Some r"
    and "market_cap r = None \<or> volume_24h r = None"
  shows "get_smart_token_price e w tid =
     (Returns (Inl ''An internal database error occurred.''),
      w\<lparr>trace := trace w @ [Db_connect, Select_price tid]\<rparr>)"
  using assms
  by (auto simp: get_smart_token_price_def Let_def row_floats_def called_def db_error_def
      split: option.splits)

text \<open>The price feed gives no market cap: the first query answers with the price and
  stores a \<open>NULL\<close>, and the second query, a cache hit, answers with the error.\<close>

theorem null_column_hit_reports_database_error_witness:
  "get_smart_token_price null_cap_env empty_world ''bitcoin'' =
     (Returns (Inr \<lparr>price_usd = Some (PyInt 67000), market_cap_usd = None,
                    volume_24h_usd = Some (PyInt 25000000000)\<rparr>), null_cap_world) \<and>
   get_smart_token_price null_cap_env null_cap_world ''bitcoin'' =
     (Returns (Inl ''An internal database error occurred.''),
      null_cap_world\<lparr>trace := trace null_cap_world @ [Db_connect, Select_price ''bitcoin'']\<rparr>)"
proof -
  have first: "get_smart_token_price null_cap_env empty_world ''bitcoin'' =
     (Returns (Inr \<lparr>price_usd = Some (PyInt 67000), market_cap_usd = None,
                    volume_24h_usd = Some (PyInt 25000000000)\<rparr>), null_cap_world)"
    by code_simp
  have up: "\<not> db_down (price_storage null_cap_env)"
    "select_error (price_storage null_cap_env) = None"
    by code_simp+
  have hit: "price_lookup (price_history null_cap_world) ''bitcoin''
       (clock (price_storage null_cap_env)) =
     Some \<lparr>token_id = ''bitcoin'', price = 67000, market_cap = None,
           volume_24h = Some 25000000000, fetched_at = minutes 10\<rparr>"
    by code_simp
  from null_column_hit_reports_database_error [OF up hit] first
  show ?thesis by simp
qed

section \<open>The SSE adapter on the producer's lines\<close>

lemma price_step_named: "list_all (\<lambda>ev. fst ev \<noteq> []) (fst (price_step e w tok))"
  by (auto simp: price_step_def split: prod.splits attempt.splits sum.splits)

lemma news_step_named: "list_all (\<lambda>ev. fst ev \<noteq> []) (fst (news_step e w tok))"
  by (auto simp: news_step_def split: prod.splits attempt.splits sum.splits)

lemma stream_events_named: "list_all (\<lambda>ev. fst ev \<noteq> []) (fst (stream_events e w question))"
proof -
  obtain i t where p: "parse_natural_language_query (token_index e) question = (i, t)"
    by (cases "parse_natural_language_query (token_index e) question")
  have ps: "list_all (\<lambda>ev. fst ev \<noteq> []) (fst (price_step e w tok))" for tok w
    by (rule price_step_named)
  have ns: "list_all (\<lambda>ev. fst ev \<noteq> []) (fst (news_step e w tok))" for tok w
    by (rule news_step_named)
  show ?thesis
  proof (cases t)
    case None
    with p show ?thesis
      by (cases i) (simp_all add: stream_events_def recognized_def done_event_def no_subject_def
          split: prod.splits)
  next
    case (Some tok)
    obtain pe px pw where a: "price_step e w tok = (pe, px, pw)" by (cases "price_step e w tok")
    obtain ne nx nw where b: "news_step e pw tok = (ne, nx, nw)" by (cases "news_step e pw tok")
    obtain ne' nx' nw' where c: "news_step e w tok = (ne', nx', nw')"
      by (cases "news_step e w tok")
    from ps [of w tok] a have pe: "list_all (\<lambda>ev. fst ev \<noteq> []) pe" by simp
    from ns [of pw tok] b have ne: "list_all (\<lambda>ev. fst ev \<noteq> []) ne" by simp
    from ns [of w tok] c have ne': "list_all (\<lambda>ev. fst ev \<noteq> []) ne'" by simp
    from p Some a b c pe ne ne' show ?thesis
      by (cases i)
         (auto simp: stream_events_def recognized_def done_event_def no_subject_def
            split: prod.splits attempt.splits option.splits)
  qed
qed

lemma adapt_line_decoded:
  assumes "loads js (format_event js ev) = Some (JObj [(''event'', JStr (fst ev)), (''data'', snd ev)])"
    and "fst ev \<noteq> []"
  shows "adapt_line js (format_event js ev) = Inr (sse_frame js (fst ev) (snd ev))"
proof -
  have "format_event js ev \<noteq> []" by (simp add: format_event_def)
  with assms show ?thesis
    by (simp add: adapt_line_def dict_get_def event_text_def)
qed

lemma adapt_lines_decoded:
  assumes "\<forall>ev \<in> set events.
      loads js (format_event js ev) = Some (JObj [(''event'', JStr (fst ev)), (''data'', snd ev)])"
    and "list_all (\<lambda>ev. fst ev \<noteq> []) events"
  shows "adapt_lines js (map (format_event js) events) =
     (concat (map (\<lambda>ev. sse_frame js (fst ev) (snd ev)) events), None)"
  using assms
  by (induction events) (simp_all add: adapt_line_decoded)

text \<open>
  Claim C5, as the code has it. Let \<open>json.loads\<close> decode each line of the producer to
  the object that \<open>format_event\<close> encoded. Then the adapter yields, for each event in
  the order received, the chunk \<open>event: <name>\<close> and the chunk \<open>data: <json>\<close> that
  encodes the event's own data, and after them one more frame of its own: the sentinel
  \<open>event: done\<close> with the data \<open>{}\<close> when the producer has finished, or the frame
  \<open>event: error\<close> with the text of the exception when the producer has raised. Nothing
  else is yielded.
\<close>

theorem sse_adapter_frames_then_closing_frame:
  assumes "\<forall>ev \<in> set (fst (stream_events e w prompt)).
      loads js (format_event js ev) = Some (JObj [(''event'', JStr (fst ev)), (''data'', snd ev)])"
  shows "sse_adapter js e w prompt =
     concat (map (\<lambda>ev. sse_frame js (fst ev) (snd ev)) (fst (stream_events e w prompt))) @
     (case fst (snd (stream_events e w prompt)) of
        Completed \<Rightarrow> [sentinel]
      | Raised x \<Rightarrow> error_frame js x)"
proof -
  obtain events how w' where run: "stream_events e w prompt = (events, how, w')"
    by (cases "stream_events e w prompt")
  from stream_events_named [of e w prompt] run
  have named: "list_all (\<lambda>ev. fst ev \<noteq> []) events" by simp
  from assms run have "\<forall>ev \<in> set events.
      loads js (format_event js ev) = Some (JObj [(''event'', JStr (fst ev)), (''data'', snd ev)])"
    by simp
  from adapt_lines_decoded [OF this named] run show ?thesis
    by (cases how) (simp_all add: sse_adapter_def stream_agent_response_def)
qed

text \<open>The chunks for the question \<open>price now\<close>, and for \<open>bitcoin price\<close> when the
  connection is lost.\<close>

theorem sse_adapter_frames_then_closing_frame_witness:
  \<open>sse_adapter price_now_json example_env empty_world ''price now'' =
     [''event: intent_recognized'' @ [CHR 10],
      ''data: {"intent": "GET_PRICE", "token": null}'' @ [CHR 10, CHR 10],
      ''event: error'' @ [CHR 10],
      ''data: {"message": "Sorry, I couldn'' @ [CHR 39] @
        ''t identify a cryptocurrency in your question."}'' @ [CHR 10, CHR 10],
      ''event: done'' @ [CHR 10],
      ''data: "Stream finished."'' @ [CHR 10, CHR 10],
      ''event: done'' @ [CHR 10] @ ''data: {}'' @ [CHR 10, CHR 10]] \<and>
   sse_adapter lost_json lost_connection_env empty_world ''bitcoin price'' =
     [''event: intent_recognized'' @ [CHR 10],
      ''data: {"intent": "GET_PRICE", "token": "bitcoin"}'' @ [CHR 10, CHR 10],
      ''event: status_update'' @ [CHR 10],
      ''data: "Fetching price for bitcoin..."'' @ [CHR 10, CHR 10],
      ''event: error'' @ [CHR 10],
      ''data: {"message": "connection already closed"}'' @ [CHR 10, CHR 10]]\<close>
proof -
  have run: "stream_events example_env empty_world ''price now'' =
      ([recognized GET_PRICE None, no_subject, done_event], Completed, empty_world)"
    by code_simp
  have decoded: "\<forall>ev \<in> set (fst (stream_events example_env empty_world ''price now'')).
      loads price_now_json (format_event price_now_json ev) =
        Some (JObj [(''event'', JStr (fst ev)), (''data'', snd ev)])"
    unfolding run by code_simp
  have frames: \<open>concat (map (\<lambda>ev. sse_frame price_now_json (fst ev) (snd ev))
        [recognized GET_PRICE None, no_subject, done_event]) @ [sentinel] =
     [''event: intent_recognized'' @ [CHR 10],
      ''data: {"intent": "GET_PRICE", "token": null}'' @ [CHR 10, CHR 10],
      ''event: error'' @ [CHR 10],
      ''data: {"message": "Sorry, I couldn'' @ [CHR 39] @
        ''t identify a cryptocurrency in your question."}'' @ [CHR 10, CHR 10],
      ''event: done'' @ [CHR 10],
      ''data: "Stream finished."'' @ [CHR 10, CHR 10],
      ''event: done'' @ [CHR 10] @ ''data: {}'' @ [CHR 10, CHR 10]]\<close>
    by code_simp
  have lost_run: "stream_events lost_connection_env empty_world ''bitcoin price'' =
     ([recognized GET_PRICE (Some ''bitcoin''),
       (''status_update'', JStr ''Fetching price for bitcoin...'')],
      Raised ''connection already closed'',
      \<lparr>price_history = [], news_cache = [],
       trace = [Db_connect, Select_price ''bitcoin'']\<rparr>)"
    by code_simp
  have lost_decoded:
    "\<forall>ev \<in> set (fst (stream_events lost_connection_env empty_world ''bitcoin price'')).
      loads lost_json (format_event lost_json ev) =
        Some (JObj [(''event'', JStr (fst ev)), (''data'', snd ev)])"
    unfolding lost_run by code_simp
  have lost_frames: \<open>concat (map (\<lambda>ev. sse_frame lost_json (fst ev) (snd ev))
        [recognized GET_PRICE (Some ''bitcoin''),
         (''status_update'', JStr ''Fetching price for bitcoin...'')]) @
      error_frame lost_json ''connection already closed'' =
     [''event: intent_recognized'' @ [CHR 10],
      ''data: {"intent": "GET_PRICE", "token": "bitcoin"}'' @ [CHR 10, CHR 10],
      ''event: status_update'' @ [CHR 10],
      ''data: "Fetching price for bitcoin..."'' @ [CHR 10, CHR 10],
      ''event: error'' @ [CHR 10],
      ''data: {"message": "connection already closed"}'' @ [CHR 10, CHR 10]]\<close>
    by code_simp
  have finished: \<open>sse_adapter price_now_json example_env empty_world ''price now'' =
     [''event: intent_recognized'' @ [CHR 10],
      ''data: {"intent": "GET_PRICE", "token": null}'' @ [CHR 10, CHR 10],
      ''event: error'' @ [CHR 10],
      ''data: {"message": "Sorry, I couldn'' @ [CHR 39] @
        ''t identify a cryptocurrency in your question."}'' @ [CHR 10, CHR 10],
      ''event: done'' @ [CHR 10],
      ''data: "Stream finished."'' @ [CHR 10, CHR 10],
      ''event: done'' @ [CHR 10] @ ''data: {}'' @ [CHR 10, CHR 10]]\<close>
    using sse_adapter_frames_then_closing_frame [OF decoded]
    by (simp only: run fst_conv snd_conv outcome.case frames)
  have broken: \<open>sse_adapter lost_json lost_connection_env empty_world ''bitcoin price'' =
     [''event: intent_recognized'' @ [CHR 10],
      ''data: {"intent": "GET_PRICE", "token": "bitcoin"}'' @ [CHR 10, CHR 10],
      ''event: status_update'' @ [CHR 10],
      ''data: "Fetching price for bitcoin..."'' @ [CHR 10, CHR 10],
      ''event: error'' @ [CHR 10],
      ''data: {"message": "connection already closed"}'' @ [CHR 10, CHR 10]]\<close>
    using sse_adapter_frames_then_closing_frame [OF lost_decoded]
    by (simp only: lost_run fst_conv snd_conv outcome.case lost_frames)
  show ?thesis by (rule conjI [OF finished broken])
qed

text \<open>The adapter adds a frame: for \<open>price now\<close> the producer yields three events and
  the adapter seven chunks, the three pairs and the sentinel.\<close>

theorem sse_adapter_adds_frame_counterexample:
  "length (fst (stream_events example_env empty_world ''price now'')) = 3 \<and>
   length (sse_adapter price_now_json example_env empty_world ''price now'') = 7 \<and>
   sse_adapter price_now_json example_env empty_world ''price now'' \<noteq>
     concat (map (\<lambda>ev. sse_frame price_now_json (fst ev) (snd ev))
       (fst (stream_events example_env empty_world ''price now'')))"
  by code_simp

section \<open>The context rewrite\<close>

lemma starts_with_simps:
  "starts_with s [] = True"
  "starts_with [] (d # q) = False"
  "starts_with (c # cs) (d # q) = (c = d \<and> starts_with cs q)"
  by (auto simp: starts_with_def)

lemma starts_with_snoc:
  "starts_with [] (x @ [d]) = False"
  "starts_with (c # cs) (x @ [d]) =
     ((x = [] \<and> c = d) \<or> (\<exists>y. x = c # y \<and> starts_with cs (y @ [d])))"
  by (cases x; auto simp: starts_with_def)+

lemma between_spaces_price_now:
  "py_in ('' '' @ x @ '' '') '' price now '' \<longleftrightarrow>
     x = ''price'' \<or> x = ''now'' \<or> x = ''price now''"
  by (simp add: starts_with_simps starts_with_snoc) blast

lemma lower_price_now: "py_strip (py_lower ''price now'') = ''price now''"
  by code_simp

lemma names_price_now:
  "names_token ''price now'' t \<longleftrightarrow>
     info_id t \<in> {''price'', ''now'', ''price now''} \<or>
     info_name t \<in> {''price'', ''now'', ''price now''} \<or>
     info_symbol t \<in> {''price'', ''now'', ''price now''}"
proof -
  have flip: "(''price now'' = x) = (x = ''price now'')" for x :: string by auto
  have padded: "'' '' @ ''price now'' @ '' '' = '' price now ''" by simp
  show ?thesis
    unfolding names_token_def padded between_spaces_price_now flip by blast
qed

lemma prompt_price_now:
  "build_contextual_prompt ''price now'' s =
     (case last_token s of None \<Rightarrow> ''price now''
      | Some tok \<Rightarrow> if tok = [] then ''price now'' else tok @ '' price now'')"
proof -
  have a: "py_strip ''price now'' = ''price now''" by code_simp
  have b: "py_lower ''price now'' = ''price now''" by code_simp
  have c: "''price now'' \<in> set TRIGGER_WORDS" by (simp add: TRIGGER_WORDS_def)
  show ?thesis
    by (simp add: build_contextual_prompt_def Let_def a b c split: option.splits)
qed

text \<open>
  Claim C7, as the code has it. With the remembered token \<open>bitcoin\<close>, the input
  \<open>price now\<close> becomes \<open>bitcoin price now\<close>. With no remembered token it is passed
  on unchanged, and then, provided no entry of the token index has the id, name or
  symbol \<open>price\<close>, \<open>now\<close> or \<open>price now\<close>, the producer yields
  \<open>intent_recognized\<close>, the error for the missing subject, and \<open>done\<close>.
\<close>

theorem context_rewrite_price_now:
  "(last_token s = Some ''bitcoin'' \<longrightarrow>
      build_contextual_prompt ''price now'' s = ''bitcoin price now'') \<and>
   (last_token s = None \<longrightarrow>
      build_contextual_prompt ''price now'' s = ''price now'' \<and>
      ((\<forall>t \<in> set (token_index e).
          info_id t \<notin> {''price'', ''now'', ''price now''} \<and>
          info_name t \<notin> {''price'', ''now'', ''price now''} \<and>
          info_symbol t \<notin> {''price'', ''now'', ''price now''}) \<longrightarrow>
       stream_events e w (build_contextual_prompt ''price now'' s) =
         ([recognized GET_PRICE None, no_subject, done_event], Completed, w)))"
proof -
  have search: "wallet_search ''price now'' = None" by code_simp
  have words: "\<not> py_in ''list'' ''price now''" "\<not> py_in ''show'' ''price now''"
    "py_in ''price'' ''price now''"
    by code_simp+
  have unnamed: "find (names_token ''price now'') (token_index e) = None"
    if "\<forall>t \<in> set (token_index e).
          info_id t \<notin> {''price'', ''now'', ''price now''} \<and>
          info_name t \<notin> {''price'', ''now'', ''price now''} \<and>
          info_symbol t \<notin> {''price'', ''now'', ''price now''}"
    using that by (simp add: find_None_iff names_price_now)
  have parse: "parse_natural_language_query (token_index e) ''price now'' = (GET_PRICE, None)"
    if "find (names_token ''price now'') (token_index e) = None"
    using that
    by (simp add: parse_natural_language_query_def Let_def lower_price_now search words
        del: wallet_search.simps py_in.simps)
  show ?thesis
    using unnamed parse
    by (auto simp: prompt_price_now stream_events_def)
qed

text \<open>A new session, before and after it remembers bitcoin, with the fallback
  index.\<close>

theorem context_rewrite_price_now_witness:
  "build_contextual_prompt ''price now'' (fresh_session\<lparr>last_token := Some ''bitcoin''\<rparr>) =
     ''bitcoin price now'' \<and>
   build_contextual_prompt ''price now'' fresh_session = ''price now'' \<and>
   stream_events example_env empty_world (build_contextual_prompt ''price now'' fresh_session) =
     ([recognized GET_PRICE None, no_subject, done_event], Completed, empty_world)"
proof -
  have a: "last_token (fresh_session\<lparr>last_token := Some ''bitcoin''\<rparr>) = Some ''bitcoin''"
    by simp
  have b: "last_token fresh_session = None" by (simp add: fresh_session_def)
  have c: "\<forall>t \<in> set (token_index example_env).
          info_id t \<notin> {''price'', ''now'', ''price now''} \<and>
          info_name t \<notin> {''price'', ''now'', ''price now''} \<and>
          info_symbol t \<notin> {''price'', ''now'', ''price now''}"
    by (simp add: example_env_def fallback_index_def)
  from context_rewrite_price_now [of "fresh_session\<lparr>last_token := Some ''bitcoin''\<rparr>" example_env empty_world]
    context_rewrite_price_now [of fresh_session example_env empty_world] a b c
  show ?thesis by blast
qed

text \<open>The error depends on the index: when a token has the symbol \<open>now\<close>, the unchanged
  input \<open>price now\<close> names it, and the sequence is a price answer with no error in
  it.\<close>

theorem context_rewrite_index_counterexample:
  "last_token fresh_session = None \<and>
   build_contextual_prompt ''price now'' fresh_session = ''price now'' \<and>
   fst (stream_events now_env empty_world
          (build_contextual_prompt ''price now'' fresh_session)) =
     [recognized GET_PRICE (Some ''changenow-token''),
      (''status_update'', JStr ''Fetching price for changenow-token...''),
      (''price_result'',
       price_json \<lparr>price_usd = Some (PyFloat (1 / 8)), market_cap_usd = Some (PyInt 8000000),
                   volume_24h_usd = Some (PyInt 30000)\<rparr>),
      done_event] \<and>
   no_subject \<notin> set (fst (stream_events now_env empty_world
          (build_contextual_prompt ''price now'' fresh_session)))"
  by code_simp

section \<open>Pagination\<close>

lemma callback_cursor:
  "py_int (last (py_split CHR ''_'' ''more_tokens_20'')) = Some 20"
  "py_int (last (py_split CHR ''_'' ''more_tokens_40'')) = Some 40"
  "str_int 40 = ''40''"
  by code_simp+

lemma pages_of_45:
  assumes "length tokens = 45"
  shows "token_list_result tokens =
     (tokens,
      \<lparr>body = tokens_page (take 20 tokens),
       reply_markup = Some [[\<lparr>label = show_more, callback_data = ''more_tokens_20''\<rparr>]]\<rparr>)"
    and "button_callback ''more_tokens_20'' tokens =
      \<lparr>body = tokens_page (take 20 (drop 20 tokens)),
       reply_markup = Some [[\<lparr>label = show_more, callback_data = ''more_tokens_40''\<rparr>]]\<rparr>"
    and "button_callback ''more_tokens_40'' tokens =
      \<lparr>body = tokens_page (drop 40 tokens), reply_markup = Some []\<rparr>"
proof -
  from assms have ne: "tokens \<noteq> []" by auto
  have first: "py_slice tokens None (Some 20) = take 20 tokens"
    using assms by (simp add: py_slice_def slice_index_def)
  have second: "py_slice tokens (Some 20) (Some (20 + 20)) = take 20 (drop 20 tokens)"
    using assms by (simp add: py_slice_def slice_index_def)
  have third: "py_slice tokens (Some 40) (Some (40 + 20)) = drop 40 tokens"
    using assms by (simp add: py_slice_def slice_index_def)
  show "token_list_result tokens =
     (tokens,
      \<lparr>body = tokens_page (take 20 tokens),
       reply_markup = Some [[\<lparr>label = show_more, callback_data = ''more_tokens_20''\<rparr>]]\<rparr>)"
    using assms first by (simp add: token_list_result_def)
  show "button_callback ''more_tokens_20'' tokens =
      \<lparr>body = tokens_page (take 20 (drop 20 tokens)),
       reply_markup = Some [[\<lparr>label = show_more, callback_data = ''more_tokens_40''\<rparr>]]\<rparr>"
    using assms ne second
    by (simp add: button_callback_def callback_cursor Let_def del: py_split.simps)
  show "button_callback ''more_tokens_40'' tokens =
      \<lparr>body = tokens_page (drop 40 tokens), reply_markup = Some []\<rparr>"
    using assms ne third
    by (simp add: button_callback_def callback_cursor Let_def del: py_split.simps)
qed

text \<open>
  Claim C8, as the code has it. For a token list of 45 entries, the first rendering
  shows the slice \<open>[0:20]\<close> with a button whose callback data ends in \<open>20\<close>;
  selecting it shows \<open>[20:40]\<close> with a button whose callback data ends in \<open>40\<close>,
  the end of the slice shown; selecting that shows \<open>[40:60]\<close>, which is \<open>[40:45]\<close>,
  with an empty keyboard. Each selection starts where the page before ended and ends
  twenty further.
\<close>

theorem pagination_of_45_tokens:
  assumes "length tokens = 45"
  shows "token_list_result tokens =
     (tokens,
      \<lparr>body = tokens_page (take 20 tokens),
       reply_markup = Some [[\<lparr>label = show_more, callback_data = ''more_tokens_20''\<rparr>]]\<rparr>) \<and>
    button_callback ''more_tokens_20'' tokens =
      \<lparr>body = tokens_page (take 20 (drop 20 tokens)),
       reply_markup = Some [[\<lparr>label = show_more, callback_data = ''more_tokens_40''\<rparr>]]\<rparr> \<and>
    button_callback ''more_tokens_40'' tokens =
      \<lparr>body = tokens_page (drop 40 tokens), reply_markup = Some []\<rparr>"
  using pages_of_45 [OF assms] by simp

text \<open>The three pages of forty-five numbered tokens.\<close>

theorem pagination_of_45_tokens_witness:
  "body (snd (token_list_result (numbered_tokens 45))) =
     tokens_page (numbered_tokens 20) \<and>
   body (button_callback ''more_tokens_20'' (numbered_tokens 45)) =
     tokens_page (take 20 (drop 20 (numbered_tokens 45))) \<and>
   button_callback ''more_tokens_40'' (numbered_tokens 45) =
      \<lparr>body = tokens_page (drop 40 (numbered_tokens 45)), reply_markup = Some []\<rparr>"
proof -
  have len: "length (numbered_tokens 45) = 45" by (simp add: numbered_tokens_def)
  have "take 20 (numbered_tokens 45) = numbered_tokens 20"
    by (simp add: numbered_tokens_def take_map)
  with pagination_of_45_tokens [OF len] show ?thesis by simp
qed

text \<open>The slices are not those of three selections: the only button of the first
  rendering leads to \<open>[20:40]\<close>, which is not \<open>[0:20]\<close>, and the page reached by the
  second selection has no button left to select.\<close>

theorem pagination_selections_counterexample:
  "length (numbered_tokens 45) = 45 \<and>
   reply_markup (snd (token_list_result (numbered_tokens 45))) =
     Some [[\<lparr>label = show_more, callback_data = ''more_tokens_20''\<rparr>]] \<and>
   body (button_callback ''more_tokens_20'' (numbered_tokens 45)) =
     tokens_page (take 20 (drop 20 (numbered_tokens 45))) \<and>
   body (button_callback ''more_tokens_20'' (numbered_tokens 45)) \<noteq>
     tokens_page (take 20 (numbered_tokens 45)) \<and>
   reply_markup (button_callback ''more_tokens_40'' (numbered_tokens 45)) = Some []"
proof -
  have len: "length (numbered_tokens 45) = 45" by (simp add: numbered_tokens_def)
  have differ: "tokens_page (take 20 (drop 20 (numbered_tokens 45))) \<noteq>
      tokens_page (take 20 (numbered_tokens 45))"
    by code_simp
  from pages_of_45 [OF len] differ len show ?thesis by simp
qed

end
